theory Spec2Isabelle
  imports Main
begin

section \<open>Errors and formatted output\<close>

text \<open>
  Modelled from the spec: the error type of \<^verbatim>\<open>net/error.hpp\<close>, which is not among the
  sources. Every \<^verbatim>\<open>throw socket_error(msg)\<close> of the headers becomes the value
  \<open>socket_error msg\<close>: "a single exception/error kind carrying a descriptive message".
  \<open>undefined_behaviour\<close> is not an exception of the library: it marks the places where
  the C++ would dereference a null pointer or read past the end of an array.
\<close>

datatype error = socket_error string | undefined_behaviour

text \<open>
  \<^verbatim>\<open>msg << errno\<close> and \<^verbatim>\<open>std::to_string(port)\<close> print an integer in decimal.
\<close>

definition digit :: "nat \<Rightarrow> char" where
  "digit d = ''0123456789'' ! d"

fun decimal :: "nat \<Rightarrow> string" where
  "decimal n = (if n < 10 then [digit n] else decimal (n div 10) @ [digit (n mod 10)])"

declare decimal.simps [simp del]

definition show_int :: "int \<Rightarrow> string" where
  "show_int i = (if i < 0 then CHR ''-'' # decimal (nat (- i)) else decimal (nat i))"

text \<open>
  \<^verbatim>\<open>unsigned(x)\<close> on a 64-bit \<^verbatim>\<open>ssize_t\<close>, and arithmetic on \<^verbatim>\<open>unsigned\<close>: the value
  modulo \<open>2 ^ 32\<close>.
\<close>

definition to_unsigned :: "int \<Rightarrow> nat" where
  "to_unsigned i = nat (i mod 2 ^ 32)"

text \<open>\<^verbatim>\<open>s.c_str()\<close> read as a C string: the bytes before the first NUL.\<close>

definition c_str :: "string \<Rightarrow> string" where
  "c_str s = takeWhile (\<lambda>c. c \<noteq> CHR 0x00) s"

definition CR :: char where
  "CR = CHR 0x0D"

definition LF :: char where
  "LF = CHR 0x0A"

text \<open>Whether \<open>pat\<close> occurs in \<open>s\<close> as a contiguous run of bytes.\<close>

fun contains :: "string \<Rightarrow> string \<Rightarrow> bool" where
  "contains pat [] = (pat = [])"
| "contains pat (c # cs) = (take (length pat) (c # cs) = pat \<or> contains pat cs)"

section \<open>The operating system\<close>

text \<open>
  The library is a thin layer over the socket calls of the operating system, which are
  not part of the repository. They are modelled by a state, \<open>world\<close>, that every call
  transforms:
  \<^item> \<open>trace\<close> logs every call made, with its arguments, in order;
  \<^item> \<open>script\<close> is what the system is going to answer: \<open>script w n\<close> decides the call
    number \<open>n\<close> (counted from 0). An answer with \<open>err = 0\<close> lets the call succeed;
    otherwise the call fails with that code (\<^verbatim>\<open>errno\<close>, or the resolver's code for
    \<^verbatim>\<open>getaddrinfo\<close>). \<open>new_fd\<close> is the descriptor that a successful \<^verbatim>\<open>socket\<close> returns,
    \<open>room\<close> the number of bytes that a successful \<^verbatim>\<open>send\<close> takes at most, \<open>found\<close> the
    candidates that a successful \<^verbatim>\<open>getaddrinfo\<close> returns;
  \<^item> \<open>rxq w d\<close> is the receive queue of descriptor \<open>d\<close>: the bytes that have arrived
    and have not been read; \<open>peer w d\<close> is the descriptor at the other end of a
    connection when that end is in the same world, and the bytes that a \<^verbatim>\<open>send\<close> takes
    are in the queue of the peer when the call returns;
  \<^item> \<open>errno\<close> is the C variable; \<open>gai_strerror\<close> the resolver's table of messages;
  \<^item> \<open>buffer\<close> is the \<^verbatim>\<open>static char buffer[BUFFER_SIZE]\<close> of \<^verbatim>\<open>socket::read_line\<close>, which
    lives as long as the process.
\<close>

record addrinfo =
  ai_flags :: int
  ai_family :: int
  ai_socktype :: int
  ai_protocol :: int
  ai_addrlen :: nat
  ai_addr :: "nat list"

datatype sock_level = SOL_SOCKET

datatype sock_option = SO_REUSEADDR

datatype syscall =
    Getaddrinfo string string addrinfo
  | Socket int int int
  | Connect int "nat list" nat
  | Setsockopt int sock_level sock_option int
  | Bind int "nat list" nat
  | Listen int int
  | Recv int nat bool
  | Send int string
  | Close int
  | Freeaddrinfo "addrinfo list"

record answer =
  err :: int
  new_fd :: nat
  room :: nat
  found :: "addrinfo list"

record world =
  script :: "nat \<Rightarrow> answer"
  trace :: "syscall list"
  errno :: int
  rxq :: "int \<Rightarrow> string"
  peer :: "int \<Rightarrow> int option"
  gai_strerror :: "int \<Rightarrow> string"
  buffer :: string

definition next_answer :: "world \<Rightarrow> answer" where
  "next_answer w = script w (length (trace w))"

definition logged :: "syscall \<Rightarrow> world \<Rightarrow> world" where
  "logged c w = w\<lparr>trace := trace w @ [c]\<rparr>"

text \<open>
  A call that returns 0, or -1 with \<^verbatim>\<open>errno\<close> set: \<^verbatim>\<open>connect\<close>, \<^verbatim>\<open>setsockopt\<close>, \<^verbatim>\<open>bind\<close>,
  \<^verbatim>\<open>listen\<close>, \<^verbatim>\<open>close\<close>.
\<close>

definition os_status :: "syscall \<Rightarrow> world \<Rightarrow> int \<times> world" where
  "os_status c w =
     (if err (next_answer w) = 0 then (0, logged c w)
      else (- 1, (logged c w)\<lparr>errno := err (next_answer w)\<rparr>))"

text \<open>\<^verbatim>\<open>socket(family, type, protocol)\<close>: the new descriptor, or -1.\<close>

definition os_socket :: "int \<Rightarrow> int \<Rightarrow> int \<Rightarrow> world \<Rightarrow> int \<times> world" where
  "os_socket fam ty proto w =
     (if err (next_answer w) = 0
      then (int (new_fd (next_answer w)), logged (Socket fam ty proto) w)
      else (- 1, (logged (Socket fam ty proto) w)\<lparr>errno := err (next_answer w)\<rparr>))"

text \<open>
  \<^verbatim>\<open>getaddrinfo(node, service, hints, res)\<close>: 0 and a list of at least one candidate, or
  the resolver's code. A resolver that finds nothing reports \<^verbatim>\<open>EAI_NONAME\<close> (-2 in
  glibc).
\<close>

definition EAI_NONAME :: int where
  "EAI_NONAME = - 2"

definition os_getaddrinfo ::
  "string \<Rightarrow> string \<Rightarrow> addrinfo \<Rightarrow> world \<Rightarrow> int \<times> addrinfo list \<times> world" where
  "os_getaddrinfo node service hints w =
     (if err (next_answer w) \<noteq> 0
      then (err (next_answer w), [], logged (Getaddrinfo node service hints) w)
      else if found (next_answer w) = []
      then (EAI_NONAME, [], logged (Getaddrinfo node service hints) w)
      else (0, found (next_answer w), logged (Getaddrinfo node service hints) w))"

text \<open>
  \<^verbatim>\<open>recv(fd, buffer, length, flags)\<close> on a stream socket: up to \<open>len\<close> bytes from the
  front of the receive queue, which stay there under \<^verbatim>\<open>MSG_PEEK\<close>. The result is the
  return value and the bytes written to the caller's buffer.
\<close>

definition os_recv :: "int \<Rightarrow> nat \<Rightarrow> bool \<Rightarrow> world \<Rightarrow> int \<times> string \<times> world" where
  "os_recv d len peek w =
     (if err (next_answer w) \<noteq> 0
      then (- 1, [], (logged (Recv d len peek) w)\<lparr>errno := err (next_answer w)\<rparr>)
      else (int (length (take len (rxq w d))), take len (rxq w d),
            if peek then logged (Recv d len peek) w
            else (logged (Recv d len peek) w)\<lparr>rxq := (rxq w)(d := drop len (rxq w d))\<rparr>))"

text \<open>
  \<^verbatim>\<open>send(fd, buffer, length, 0)\<close>: the system takes the first \<open>room\<close> bytes at most, and
  they arrive in the receive queue of the peer.
\<close>

definition os_send :: "int \<Rightarrow> string \<Rightarrow> world \<Rightarrow> int \<times> world" where
  "os_send d bytes w =
     (if err (next_answer w) \<noteq> 0
      then (- 1, (logged (Send d bytes) w)\<lparr>errno := err (next_answer w)\<rparr>)
      else (int (length (take (room (next_answer w)) bytes)),
            case peer w d of
              None \<Rightarrow> logged (Send d bytes) w
            | Some p \<Rightarrow> (logged (Send d bytes) w)
                \<lparr>rxq := (rxq w)(p := rxq w p @ take (room (next_answer w)) bytes)\<rparr>))"

section \<open>net::socket\<close>

text \<open>The member \<^verbatim>\<open>fd_\<close> is the field \<open>fd\<close>: a name of HOL cannot end with an underscore.\<close>

record socket =
  fd :: int

text \<open>The three constructors: \<^verbatim>\<open>socket()\<close>, \<^verbatim>\<open>socket(int fd)\<close>, \<^verbatim>\<open>socket(const socket& s)\<close>.\<close>

definition socket_ctor :: socket where
  "socket_ctor = \<lparr>fd = 0\<rparr>"

definition socket_ctor_fd :: "int \<Rightarrow> socket" where
  "socket_ctor_fd d = \<lparr>fd = d\<rparr>"

definition socket_ctor_copy :: "'a socket_scheme \<Rightarrow> socket" where
  "socket_ctor_copy s = \<lparr>fd = fd s\<rparr>"

text \<open>\<^verbatim>\<open>~socket()\<close>.\<close>

definition socket_dtor :: "'a socket_scheme \<Rightarrow> world \<Rightarrow> (error + unit) \<times> world" where
  "socket_dtor s w =
     (if fd s > 0 then
        (case os_status (Close (fd s)) w of
           (r, w') \<Rightarrow>
             if r < 0
             then (Inl (socket_error (''Error closing socket: '' @ show_int (errno w'))), w')
             else (Inr (), w'))
      else (Inr (), w))"

text \<open>
  \<^verbatim>\<open>socket::read(buffer, length, peek)\<close>. The caller's buffer is an argument and a
  result: \<open>store buf bytes\<close> is the buffer after the system wrote \<open>bytes\<close> at its start.
\<close>

definition store :: "string \<Rightarrow> string \<Rightarrow> string" where
  "store buf bytes = bytes @ drop (length bytes) buf"

definition socket_read ::
  "'a socket_scheme \<Rightarrow> string \<Rightarrow> nat \<Rightarrow> bool \<Rightarrow> world \<Rightarrow> (error + nat) \<times> string \<times> world" where
  "socket_read s buf len peek w =
     (case os_recv (fd s) len peek w of
        (read_length, bytes, w') \<Rightarrow>
          if read_length < 0
          then (Inl (socket_error (''Error reading from connected host: '' @ show_int (errno w'))),
                buf, w')
          else (Inr (to_unsigned read_length), store buf bytes, w'))"

text \<open>\<^verbatim>\<open>socket::write(buffer, length)\<close>: \<open>bytes\<close> are the \<open>length\<close> bytes at \<open>buffer\<close>.\<close>

definition socket_write :: "'a socket_scheme \<Rightarrow> string \<Rightarrow> world \<Rightarrow> (error + nat) \<times> world" where
  "socket_write s bytes w =
     (if fd s = 0 then (Inl (socket_error ''Not connected''), w)
      else
        (case os_send (fd s) bytes w of
           (write_length, w') \<Rightarrow>
             if write_length < 0
             then (Inl (socket_error (''Error writing to connected host: '' @ show_int (errno w'))),
                   w')
             else (Inr (to_unsigned write_length), w')))"

text \<open>\<^verbatim>\<open>socket::write_line(line)\<close>.\<close>

definition socket_write_line :: "'a socket_scheme \<Rightarrow> string \<Rightarrow> world \<Rightarrow> (error + nat) \<times> world" where
  "socket_write_line s line w = socket_write s (line @ [CR, LF]) w"

text \<open>
  \<^verbatim>\<open>socket::read_line()\<close>. \<open>scan_eol\<close> is its \<^verbatim>\<open>while\<close> loop: \<open>p\<close> is \<^verbatim>\<open>p - buffer\<close>, and
  the result is \<open>p\<close> and \<^verbatim>\<open>found_eol\<close> when the loop ends.
\<close>

definition BUFFER_SIZE :: nat where
  "BUFFER_SIZE = 4096"

function scan_eol :: "string \<Rightarrow> nat \<Rightarrow> nat \<Rightarrow> nat \<Rightarrow> nat \<times> nat" where
  "scan_eol buf p read_length found_eol =
     (if p < read_length \<and> found_eol < 2
      then scan_eol buf (Suc p) read_length
             (if buf ! p = CR \<or> buf ! p = LF then Suc found_eol else found_eol)
      else (p, found_eol))"
  by pat_completeness auto
termination
  by (relation "measure (\<lambda>(buf, p, read_length, found_eol). read_length - p)") auto

declare scan_eol.simps [simp del]

text \<open>\<^verbatim>\<open>std::string(buffer, n)\<close>: the first \<open>n\<close> bytes of the array, which has to hold them.\<close>

definition std_string :: "string \<Rightarrow> nat \<Rightarrow> error + string" where
  "std_string buf n = (if n \<le> length buf then Inr (take n buf) else Inl undefined_behaviour)"

definition socket_read_line :: "'a socket_scheme \<Rightarrow> world \<Rightarrow> (error + string) \<times> world" where
  "socket_read_line s w =
     (case socket_read s (buffer w) BUFFER_SIZE True w of
        (Inl e, b1, w1) \<Rightarrow> (Inl e, w1\<lparr>buffer := b1\<rparr>)
      | (Inr read_length, b1, w1) \<Rightarrow>
          if read_length > 0 then
            (case scan_eol b1 0 read_length 0 of
               (p, found_eol) \<Rightarrow>
                 if found_eol < 2
                 then (Inl (socket_error (''Line not found: '' @ decimal found_eol)),
                       w1\<lparr>buffer := b1\<rparr>)
                 else
                   (case socket_read s b1 p False (w1\<lparr>buffer := b1\<rparr>) of
                      (Inl e, b2, w2) \<Rightarrow> (Inl e, w2\<lparr>buffer := b2\<rparr>)
                    | (Inr read_length2, b2, w2) \<Rightarrow>
                        (std_string b2 (to_unsigned (int read_length2 - 2)),
                         w2\<lparr>buffer := b2\<rparr>)))
          else (Inr [], w1\<lparr>buffer := b1\<rparr>))"

section \<open>Socket traits\<close>

text \<open>
  \<^verbatim>\<open>socket_traits<flags_, family_, type_, protocol_>\<close>: four constants. The values of the
  macros come from the headers of the system; these are the ones of Linux.
\<close>

record socket_traits =
  flags :: int
  family :: int
  type :: int
  protocol :: int

definition AI_PASSIVE :: int where
  "AI_PASSIVE = 1"

definition PF_INET :: int where
  "PF_INET = 2"

definition SOCK_STREAM :: int where
  "SOCK_STREAM = 1"

definition SOCK_DGRAM :: int where
  "SOCK_DGRAM = 2"

definition IPPROTO_TCP :: int where
  "IPPROTO_TCP = 6"

definition IPPROTO_UDP :: int where
  "IPPROTO_UDP = 17"

definition tcp_traits :: socket_traits where
  "tcp_traits =
     \<lparr>flags = AI_PASSIVE, family = PF_INET, type = SOCK_STREAM, protocol = IPPROTO_TCP\<rparr>"

definition udp_traits :: socket_traits where
  "udp_traits =
     \<lparr>flags = AI_PASSIVE, family = PF_INET, type = SOCK_DGRAM, protocol = IPPROTO_UDP\<rparr>"

section \<open>net::socket_impl, net::client and net::server\<close>

text \<open>
  \<^verbatim>\<open>socket_impl<T, traits>\<close> adds \<^verbatim>\<open>res0_\<close>, the head of the list that \<^verbatim>\<open>getaddrinfo\<close>
  returned: the empty list is \<^verbatim>\<open>nullptr\<close>. \<open>T\<close> is the client or the server, and
  \<^verbatim>\<open>static_cast<T*>(this)->do_connect()\<close> calls the \<^verbatim>\<open>do_connect\<close> of that class.
\<close>

record socket_impl = socket +
  res0 :: "addrinfo list"

datatype variant = Client | Server

definition socket_impl_ctor :: socket_impl where
  "socket_impl_ctor = \<lparr>fd = 0, res0 = []\<rparr>"

text \<open>\<^verbatim>\<open>client::do_connect()\<close>.\<close>

definition client_do_connect :: "socket_impl \<Rightarrow> world \<Rightarrow> (error + unit) \<times> world" where
  "client_do_connect h w =
     (case res0 h of
        [] \<Rightarrow> (Inl undefined_behaviour, w)
      | c # cs \<Rightarrow>
          (case os_status (Connect (fd h) (ai_addr c) (ai_addrlen c)) w of
             (r, w') \<Rightarrow>
               if r < 0
               then (Inl (socket_error (''Connection failed: '' @ show_int (errno w'))), w')
               else (Inr (), w')))"

text \<open>\<^verbatim>\<open>server::do_connect()\<close>.\<close>

definition server_do_connect :: "socket_impl \<Rightarrow> world \<Rightarrow> (error + unit) \<times> world" where
  "server_do_connect h w =
     (case os_status (Setsockopt (fd h) SOL_SOCKET SO_REUSEADDR 1) w of
        (r1, w1) \<Rightarrow>
          if r1 < 0
          then (Inl (socket_error (''Could not configure socket: '' @ show_int (errno w1))), w1)
          else
            (case res0 h of
               [] \<Rightarrow> (Inl undefined_behaviour, w1)
             | c # cs \<Rightarrow>
                 (case os_status (Bind (fd h) (ai_addr c) (ai_addrlen c)) w1 of
                    (r2, w2) \<Rightarrow>
                      if r2 < 0
                      then (Inl (socket_error
                                  (''Could not bind to socket: '' @ show_int (errno w2))), w2)
                      else
                        (case os_status (Listen (fd h) 10000) w2 of
                           (r3, w3) \<Rightarrow>
                             if r3 < 0
                             then (Inl (socket_error
                                         (''Could not listen for incoming connections: ''
                                          @ show_int (errno w3))), w3)
                             else (Inr (), w3)))))"

definition do_connect :: "variant \<Rightarrow> socket_impl \<Rightarrow> world \<Rightarrow> (error + unit) \<times> world" where
  "do_connect v h w = (case v of Client \<Rightarrow> client_do_connect h w | Server \<Rightarrow> server_do_connect h w)"

text \<open>
  \<^verbatim>\<open>socket_impl::connect(name, port)\<close>. The result is the outcome, the handle and the world
  after the call: an exception leaves the members as they were when it was thrown. A
  resolver that fails leaves \<^verbatim>\<open>res0_\<close> as it was.
\<close>

definition hints_of :: "socket_traits \<Rightarrow> addrinfo" where
  "hints_of traits =
     \<lparr>ai_flags = flags traits, ai_family = family traits, ai_socktype = type traits,
      ai_protocol = protocol traits, ai_addrlen = 0, ai_addr = []\<rparr>"

definition socket_impl_connect ::
  "variant \<Rightarrow> socket_traits \<Rightarrow> socket_impl \<Rightarrow> string \<Rightarrow> nat \<Rightarrow> world
     \<Rightarrow> (error + unit) \<times> socket_impl \<times> world" where
  "socket_impl_connect v traits h name port w =
     (if fd h > 0 then (Inl (socket_error ''Socket already exists.''), h, w)
      else
        (case os_getaddrinfo (c_str name) (decimal port) (hints_of traits) w of
           (e, res, w1) \<Rightarrow>
             if e \<noteq> 0
             then (Inl (socket_error (''Could not resolve address: ('' @ show_int e @ '') ''
                                      @ gai_strerror w1 e)), h, w1)
             else
               (case res of
                  [] \<Rightarrow> (Inl undefined_behaviour, h\<lparr>res0 := res\<rparr>, w1)
                | c # cs \<Rightarrow>
                    (case os_socket (ai_family c) (ai_socktype c) (ai_protocol c) w1 of
                       (d, w2) \<Rightarrow>
                         if d < 0
                         then (Inl (socket_error
                                     (''Could not create socket: '' @ show_int (errno w2))),
                               h\<lparr>res0 := res, fd := d\<rparr>, w2)
                         else
                           (case do_connect v (h\<lparr>res0 := res, fd := d\<rparr>) w2 of
                              (r, w3) \<Rightarrow> (r, h\<lparr>res0 := res, fd := d\<rparr>, w3))))))"

text \<open>\<^verbatim>\<open>~socket_impl()\<close>, then the destructor of the base class.\<close>

definition socket_impl_dtor :: "socket_impl \<Rightarrow> world \<Rightarrow> (error + unit) \<times> world" where
  "socket_impl_dtor h w =
     socket_dtor h (if res0 h \<noteq> [] then logged (Freeaddrinfo (res0 h)) w else w)"

section \<open>Notions the properties are stated with\<close>

text \<open>An EOL marker is a carriage return or a line feed.\<close>

definition is_eol :: "char \<Rightarrow> bool" where
  "is_eol c = (c = CR \<or> c = LF)"

definition eol_count :: "string \<Rightarrow> nat" where
  "eol_count xs = length (filter is_eol xs)"

text \<open>
  The loop of \<^verbatim>\<open>read_line\<close> on the window it scans, as a recursion on the list: the number
  of bytes passed and the markers counted, starting with \<open>f\<close> markers.
\<close>

fun scan_list :: "string \<Rightarrow> nat \<Rightarrow> nat \<times> nat" where
  "scan_list [] f = (0, f)"
| "scan_list (c # cs) f =
     (if f < 2 then
        (Suc (fst (scan_list cs (if is_eol c then Suc f else f))),
         snd (scan_list cs (if is_eol c then Suc f else f)))
      else (0, f))"

text \<open>
  What the peek read of \<^verbatim>\<open>read_line\<close> yields: the bytes that the first call of
  \<^verbatim>\<open>read\<close> put into the buffer, or its error.
\<close>

definition peeked :: "'a socket_scheme \<Rightarrow> world \<Rightarrow> error + string" where
  "peeked s w =
     (case socket_read s (buffer w) BUFFER_SIZE True w of
        (Inl e, b, w') \<Rightarrow> Inl e
      | (Inr n, b, w') \<Rightarrow> Inr (take n b))"

text \<open>
  Worlds for the examples. \<open>scripted as\<close> has no call made yet, nothing received and an
  empty buffer; the system answers the first calls as \<open>as\<close> says and is \<open>willing\<close>
  afterwards. \<open>loopback\<close> is 127.0.0.1, port 1234, as the test of the server uses it.
\<close>

definition loopback :: addrinfo where
  "loopback =
     \<lparr>ai_flags = 0, ai_family = PF_INET, ai_socktype = SOCK_STREAM, ai_protocol = IPPROTO_TCP,
      ai_addrlen = 16, ai_addr = [2, 0, 4, 210, 127, 0, 0, 1, 0, 0, 0, 0, 0, 0, 0, 0]\<rparr>"

definition willing :: answer where
  "willing = \<lparr>err = 0, new_fd = 3, room = 65536, found = [loopback]\<rparr>"

definition failing :: "int \<Rightarrow> answer" where
  "failing e = willing\<lparr>err := e\<rparr>"

definition scripted :: "answer list \<Rightarrow> world" where
  "scripted as =
     \<lparr>script = (\<lambda>n. if n < length as then as ! n else willing), trace = [], errno = 0,
      rxq = (\<lambda>d. []), peer = (\<lambda>d. None), gai_strerror = (\<lambda>e. ''Name or service not known''),
      buffer = replicate BUFFER_SIZE (CHR 0x00)\<rparr>"

definition arrived :: "int \<Rightarrow> string \<Rightarrow> world \<Rightarrow> world" where
  "arrived d bytes w = w\<lparr>rxq := (rxq w)(d := rxq w d @ bytes)\<rparr>"

definition connected :: "int \<Rightarrow> int \<Rightarrow> world \<Rightarrow> world" where
  "connected d d' w = w\<lparr>peer := (peer w)(d := Some d', d' := Some d)\<rparr>"


text \<open>
  Sequences of constructions, copies and destructions of \<^verbatim>\<open>net::socket\<close> handles. The live
  handles are a list: \<open>Construct\<close> is \<^verbatim>\<open>socket()\<close>, \<open>Wrap d\<close> is \<^verbatim>\<open>socket(d)\<close>, \<open>Copy i\<close>
  copy-constructs from the live handle number \<open>i\<close>, \<open>Destroy i\<close> runs the destructor of
  the live handle number \<open>i\<close>, whose life ends whether the destructor throws or not. A
  position that names no live handle does nothing. \<open>run\<close> stops at the first exception.
\<close>

datatype op = Construct | Wrap int | Copy nat | Destroy nat

fun handles_after :: "op \<Rightarrow> socket list \<Rightarrow> socket list" where
  "handles_after Construct live = live @ [socket_ctor]"
| "handles_after (Wrap d) live = live @ [socket_ctor_fd d]"
| "handles_after (Copy i) live =
     (if i < length live then live @ [socket_ctor_copy (live ! i)] else live)"
| "handles_after (Destroy i) live = take i live @ drop (Suc i) live"

fun step :: "op \<Rightarrow> socket list \<Rightarrow> world \<Rightarrow> (error + unit) \<times> socket list \<times> world" where
  "step (Destroy i) live w =
     (if i < length live
      then (fst (socket_dtor (live ! i) w), handles_after (Destroy i) live,
            snd (socket_dtor (live ! i) w))
      else (Inr (), live, w))"
| "step x live w = (Inr (), handles_after x live, w)"

fun run :: "op list \<Rightarrow> socket list \<Rightarrow> world \<Rightarrow> (error + unit) \<times> socket list \<times> world" where
  "run [] live w = (Inr (), live, w)"
| "run (x # xs) live w =
     (case step x live w of
        (Inl e, live', w') \<Rightarrow> (Inl e, live', w')
      | (Inr u, live', w') \<Rightarrow> run xs live' w')"

text \<open>
  The valid descriptors (greater than 0) that the live handles hold, one entry for each
  handle; no descriptor is held twice when the list is distinct.
\<close>

definition owned :: "socket list \<Rightarrow> int list" where
  "owned live = filter (\<lambda>d. 0 < d) (map fd live)"

definition exclusive :: "socket list \<Rightarrow> bool" where
  "exclusive live = distinct (owned live)"

text \<open>
  The steps that hand a held descriptor to a second handle: wrapping a descriptor that a
  live handle holds, and copying a handle that holds a valid descriptor.
\<close>

fun shares :: "op \<Rightarrow> socket list \<Rightarrow> bool" where
  "shares (Wrap d) live = (0 < d \<and> d \<in> set (owned live))"
| "shares (Copy i) live = (i < length live \<and> 0 < fd (live ! i))"
| "shares x live = False"

fun sharing_free :: "op list \<Rightarrow> socket list \<Rightarrow> bool" where
  "sharing_free [] live = True"
| "sharing_free (x # xs) live = (\<not> shares x live \<and> sharing_free xs (handles_after x live))"

section \<open>Decimal output and messages\<close>

lemma contains_set: "contains pat s \<Longrightarrow> set pat \<subseteq> set s"
proof (induction s)
  case Nil
  then show ?case by simp
next
  case (Cons c cs)
  from Cons.prems have "take (length pat) (c # cs) = pat \<or> contains pat cs"
    by simp
  then show ?case
  proof
    assume "take (length pat) (c # cs) = pat"
    then have "set pat = set (take (length pat) (c # cs))" by simp
    also have "\<dots> \<subseteq> set (c # cs)" by (rule set_take_subset)
    finally show ?thesis .
  next
    assume "contains pat cs"
    with Cons.IH show ?thesis by auto
  qed
qed

lemma contains_prefix: "contains pat (pat @ xs)"
proof (cases "pat @ xs")
  case Nil
  then show ?thesis by simp
next
  case (Cons c cs)
  have "take (length pat) (pat @ xs) = pat" by simp
  then have "take (length pat) (c # cs) = pat" unfolding Cons .
  then show ?thesis unfolding Cons by simp
qed

lemma decimal_digits: "set (decimal n) \<subseteq> set ''0123456789''"
proof (induction n rule: decimal.induct)
  case (1 n)
  have d: "\<And>k. k < 10 \<Longrightarrow> digit k \<in> set ''0123456789''"
    unfolding digit_def by (rule nth_mem) simp
  show ?case
  proof (cases "n < 10")
    case True
    then show ?thesis using d[of n] by (subst decimal.simps) simp
  next
    case False
    have "digit (n mod 10) \<in> set ''0123456789''" by (rule d) simp
    with False 1 show ?thesis by (subst decimal.simps) simp
  qed
qed

lemma decimal_no_L: "CHR ''L'' \<notin> set (decimal n)"
proof
  assume "CHR ''L'' \<in> set (decimal n)"
  with decimal_digits[of n] have "CHR ''L'' \<in> set ''0123456789''"
    by (rule subsetD)
  then show False by simp
qed

lemma show_int_no_L: "CHR ''L'' \<notin> set (show_int i)"
  by (simp add: show_int_def decimal_no_L)

lemma recv_message_not_line_not_found:
  "\<not> contains ''Line not found'' (''Error reading from connected host: '' @ show_int e)"
proof
  assume "contains ''Line not found'' (''Error reading from connected host: '' @ show_int e)"
  then have "set ''Line not found'' \<subseteq> set (''Error reading from connected host: '' @ show_int e)"
    by (rule contains_set)
  moreover have "CHR ''L'' \<in> set ''Line not found''"
    by simp
  ultimately have "CHR ''L'' \<in> set (''Error reading from connected host: '' @ show_int e)"
    by (rule subsetD)
  then show False
    by (simp add: show_int_no_L)
qed

section \<open>Reading: the scan and the two reads of a line\<close>

lemma scan_eol_scan_list:
  "n \<le> length buf \<Longrightarrow>
   scan_eol buf p n f =
     (p + fst (scan_list (drop p (take n buf)) f), snd (scan_list (drop p (take n buf)) f))"
proof (induction buf p n f rule: scan_eol.induct)
  case (1 buf p n f)
  show ?case
  proof (cases "p < n \<and> f < 2")
    case True
    then have "p < length (take n buf)"
      using "1.prems" by simp
    then have "take n buf ! p # drop (Suc p) (take n buf) = drop p (take n buf)"
      by (rule Cons_nth_drop_Suc)
    then have dr: "drop p (take n buf) = buf ! p # drop (Suc p) (take n buf)"
      using True by simp
    show ?thesis
      using True "1.IH" "1.prems"
      by (subst scan_eol.simps) (simp add: dr is_eol_def)
  next
    case False
    then show ?thesis
      using "1.prems" by (subst scan_eol.simps) (cases "drop p (take n buf)"; auto)
  qed
qed

lemma scan_list_found:
  "f \<le> 2 \<Longrightarrow> snd (scan_list xs f) = min 2 (f + length (filter is_eol xs))"
  by (induction xs arbitrary: f) auto

lemma scan_list_le: "fst (scan_list xs f) \<le> length xs"
  by (induction xs arbitrary: f) auto

lemma scan_list_skip:
  "\<forall>c \<in> set xs. \<not> is_eol c \<Longrightarrow> f < 2 \<Longrightarrow>
   scan_list (xs @ ys) f = (length xs + fst (scan_list ys f), snd (scan_list ys f))"
  by (induction xs) auto

lemma scan_list_ge2:
  "snd (scan_list xs f) = 2 \<Longrightarrow> f < 2 \<Longrightarrow> 2 - f \<le> fst (scan_list xs f)"
proof (induction xs arbitrary: f)
  case Nil
  then show ?case by simp
next
  case (Cons c cs)
  show ?case
  proof (cases "(if is_eol c then Suc f else f) < 2")
    case True
    with Cons.IH[of "if is_eol c then Suc f else f"] Cons.prems show ?thesis
      by (auto split: if_splits)
  next
    case False
    with Cons.prems show ?thesis by (auto split: if_splits)
  qed
qed

lemma to_unsigned_small: "k < 2 ^ 32 \<Longrightarrow> to_unsigned (int k) = k"
proof -
  assume "k < 2 ^ 32"
  then have "int k < 2 ^ 32" by simp
  then have "int k mod 2 ^ 32 = int k" by simp
  then show ?thesis by (simp add: to_unsigned_def)
qed

lemma take_store: "take (length bytes) (store buf bytes) = bytes"
  by (simp add: store_def)

lemma length_store: "length bytes \<le> length (store buf bytes)"
  by (simp add: store_def)

lemma length_store_array:
  "length bytes \<le> length buf \<Longrightarrow> length (store buf bytes) = length buf"
  by (simp add: store_def)

lemma std_string_store:
  "n \<le> length bytes \<Longrightarrow> std_string (store buf bytes) n = Inr (take n bytes)"
  by (simp add: std_string_def store_def)

lemma peek_ok:
  assumes "err (next_answer w) = 0"
  shows "socket_read s buf BUFFER_SIZE True w =
     (Inr (length (take BUFFER_SIZE (rxq w (fd s)))),
      store buf (take BUFFER_SIZE (rxq w (fd s))),
      logged (Recv (fd s) BUFFER_SIZE True) w)"
proof -
  have "length (take BUFFER_SIZE (rxq w (fd s))) < 2 ^ 32"
    by (simp add: BUFFER_SIZE_def min_def)
  then have "to_unsigned (int (length (take BUFFER_SIZE (rxq w (fd s))))) =
      length (take BUFFER_SIZE (rxq w (fd s)))"
    by (rule to_unsigned_small)
  with assms show ?thesis
    by (simp add: socket_read_def os_recv_def del: length_take)
qed

lemma recv_fails:
  "err (next_answer w) \<noteq> 0 \<Longrightarrow>
   socket_read s buf len peek w =
     (Inl (socket_error (''Error reading from connected host: '' @ show_int (err (next_answer w)))),
      buf, (logged (Recv (fd s) len peek) w)\<lparr>errno := err (next_answer w)\<rparr>)"
  by (simp add: socket_read_def os_recv_def)

lemma consume_ok:
  "err (next_answer w) = 0 \<Longrightarrow> p \<le> length (rxq w (fd s)) \<Longrightarrow> p < 2 ^ 32 \<Longrightarrow>
   socket_read s buf p False w =
     (Inr p, store buf (take p (rxq w (fd s))),
      (logged (Recv (fd s) p False) w)\<lparr>rxq := (rxq w)(fd s := drop p (rxq w (fd s)))\<rparr>)"
  by (simp add: socket_read_def os_recv_def to_unsigned_small min_def)

lemma scan_window:
  "scan_eol (store buf win) 0 (length win) 0 = scan_list win 0"
  using scan_eol_scan_list[of "length win" "store buf win" 0 0]
  by (simp add: length_store take_store)

lemma read_line_recv_fails:
  "err (next_answer w) \<noteq> 0 \<Longrightarrow>
   socket_read_line s w =
     (Inl (socket_error (''Error reading from connected host: '' @ show_int (err (next_answer w)))),
      (logged (Recv (fd s) BUFFER_SIZE True) w)\<lparr>errno := err (next_answer w)\<rparr>)"
  by (simp add: socket_read_line_def recv_fails logged_def)

lemma read_line_no_data:
  "err (next_answer w) = 0 \<Longrightarrow> rxq w (fd s) = [] \<Longrightarrow>
   socket_read_line s w = (Inr [], logged (Recv (fd s) BUFFER_SIZE True) w)"
  by (simp add: socket_read_line_def peek_ok store_def logged_def)

lemma read_line_unfold_not_found:
  assumes "socket_read s (buffer w) BUFFER_SIZE True w = (Inr n, b1, w1)" and "0 < n"
    and "scan_eol b1 0 n 0 = (p, k)" and "k < 2"
  shows "socket_read_line s w =
           (Inl (socket_error (''Line not found: '' @ decimal k)), w1\<lparr>buffer := b1\<rparr>)"
  using assms by (simp add: socket_read_line_def)

lemma read_line_not_found:
  assumes "err (next_answer w) = 0" and "rxq w (fd s) \<noteq> []"
    and "eol_count (take BUFFER_SIZE (rxq w (fd s))) < 2"
  shows "socket_read_line s w =
     (Inl (socket_error (''Line not found: ''
             @ decimal (eol_count (take BUFFER_SIZE (rxq w (fd s)))))),
      (logged (Recv (fd s) BUFFER_SIZE True) w)
        \<lparr>buffer := store (buffer w) (take BUFFER_SIZE (rxq w (fd s)))\<rparr>)"
proof -
  define win where "win = take BUFFER_SIZE (rxq w (fd s))"
  have ne: "0 < length win"
    using assms(2) by (simp add: win_def BUFFER_SIZE_def)
  have f: "snd (scan_list win 0) = eol_count win"
    using assms(3) by (simp add: scan_list_found eol_count_def win_def)
  have one: "socket_read s (buffer w) BUFFER_SIZE True w =
      (Inr (length win), store (buffer w) win, logged (Recv (fd s) BUFFER_SIZE True) w)"
    unfolding win_def by (rule peek_ok[OF assms(1)])
  have sc: "scan_eol (store (buffer w) win) 0 (length win) 0 =
      (fst (scan_list win 0), eol_count win)"
    unfolding scan_window using f by (simp add: prod_eq_iff)
  have k: "eol_count win < 2"
    using assms(3) by (simp add: win_def)
  show ?thesis
    using read_line_unfold_not_found[OF one ne sc k] by (simp add: win_def)
qed

lemma read_line_unfold:
  assumes "socket_read s (buffer w) BUFFER_SIZE True w = (Inr n, b1, w1)" and "0 < n"
    and "scan_eol b1 0 n 0 = (p, 2)"
    and "socket_read s b1 p False (w1\<lparr>buffer := b1\<rparr>) = (Inr n2, b2, w2)"
  shows "socket_read_line s w = (std_string b2 (to_unsigned (int n2 - 2)), w2\<lparr>buffer := b2\<rparr>)"
  using assms by (simp add: socket_read_line_def)

lemma read_line_found:
  assumes "err (next_answer w) = 0"
    and "2 \<le> eol_count (take BUFFER_SIZE (rxq w (fd s)))"
    and "err (script w (Suc (length (trace w)))) = 0"
  shows "fst (socket_read_line s w) =
           Inr (take (fst (scan_list (take BUFFER_SIZE (rxq w (fd s))) 0) - 2) (rxq w (fd s)))"
    and "rxq (snd (socket_read_line s w)) =
           (rxq w)(fd s := drop (fst (scan_list (take BUFFER_SIZE (rxq w (fd s))) 0)) (rxq w (fd s)))"
    and "trace (snd (socket_read_line s w)) =
           trace w @ [Recv (fd s) BUFFER_SIZE True,
                      Recv (fd s) (fst (scan_list (take BUFFER_SIZE (rxq w (fd s))) 0)) False]"
proof -
  define q where "q = rxq w (fd s)"
  define win where "win = take BUFFER_SIZE q"
  define p where "p = fst (scan_list win 0)"
  define b1 where "b1 = store (buffer w) win"
  define w1 where "w1 = logged (Recv (fd s) BUFFER_SIZE True) w"
  have ne: "0 < length win"
    using assms(2) unfolding win_def q_def by (cases "take BUFFER_SIZE (rxq w (fd s))") (auto simp: eol_count_def)
  have f: "snd (scan_list win 0) = 2"
    using assms(2) unfolding win_def q_def by (simp add: scan_list_found eol_count_def)
  have p2: "2 \<le> p"
    using scan_list_ge2[OF f] by (simp add: p_def)
  have ple: "p \<le> length win"
    unfolding p_def by (rule scan_list_le)
  have wl: "length win \<le> length q" "length win \<le> 4096"
    unfolding win_def by (simp_all add: BUFFER_SIZE_def)
  have pq: "p \<le> length (rxq (w1\<lparr>buffer := b1\<rparr>) (fd s))"
    using ple wl by (simp add: w1_def logged_def q_def)
  have p32: "p < 2 ^ 32"
    using ple wl by simp
  have a1: "err (next_answer (w1\<lparr>buffer := b1\<rparr>)) = 0"
    using assms(3) by (simp add: next_answer_def logged_def w1_def)
  have u: "to_unsigned (int p - 2) = p - 2"
    using p2 p32 to_unsigned_small[of "p - 2"] by (simp add: of_nat_diff)
  have one: "socket_read s (buffer w) BUFFER_SIZE True w = (Inr (length win), b1, w1)"
    unfolding win_def q_def b1_def w1_def by (rule peek_ok[OF assms(1)])
  have sc: "scan_eol b1 0 (length win) 0 = (p, 2)"
    unfolding b1_def scan_window p_def using f by (simp add: prod_eq_iff)
  have two: "socket_read s b1 p False (w1\<lparr>buffer := b1\<rparr>) =
     (Inr p, store b1 (take p q),
      (logged (Recv (fd s) p False) (w1\<lparr>buffer := b1\<rparr>))
        \<lparr>rxq := (rxq (w1\<lparr>buffer := b1\<rparr>))(fd s := drop p q)\<rparr>)"
    using consume_ok[OF a1 pq p32, of b1] by (simp add: w1_def logged_def q_def)
  have len: "p - 2 \<le> length (take p q)"
    using ple wl by simp
  have tt: "take (p - 2) (take p q) = take (p - 2) q"
    by (simp add: min_absorb1)
  have st: "std_string (store b1 (take p q)) (p - 2) = Inr (take (p - 2) q)"
    using std_string_store[OF len, of b1] tt by simp
  have all: "socket_read_line s w =
     (Inr (take (p - 2) q),
      ((logged (Recv (fd s) p False) (w1\<lparr>buffer := b1\<rparr>))
        \<lparr>rxq := (rxq (w1\<lparr>buffer := b1\<rparr>))(fd s := drop p q)\<rparr>)
        \<lparr>buffer := store b1 (take p q)\<rparr>)"
    using read_line_unfold[OF one ne sc two] u st by simp
  show "fst (socket_read_line s w) =
           Inr (take (fst (scan_list (take BUFFER_SIZE (rxq w (fd s))) 0) - 2) (rxq w (fd s)))"
    by (simp add: all p_def win_def q_def)
  show "rxq (snd (socket_read_line s w)) =
           (rxq w)(fd s := drop (fst (scan_list (take BUFFER_SIZE (rxq w (fd s))) 0)) (rxq w (fd s)))"
    by (simp add: all logged_def w1_def p_def win_def q_def)
  show "trace (snd (socket_read_line s w)) =
           trace w @ [Recv (fd s) BUFFER_SIZE True,
                      Recv (fd s) (fst (scan_list (take BUFFER_SIZE (rxq w (fd s))) 0)) False]"
    by (simp add: all logged_def w1_def p_def win_def q_def)
qed

lemma peeked_ok:
  "err (next_answer w) = 0 \<Longrightarrow> peeked s w = Inr (take BUFFER_SIZE (rxq w (fd s)))"
  using take_store[of "take BUFFER_SIZE (rxq w (fd s))" "buffer w"]
  by (simp add: peeked_def peek_ok del: length_take)

lemma peeked_fails: "err (next_answer w) \<noteq> 0 \<Longrightarrow> \<exists>e. peeked s w = Inl e"
  by (simp add: peeked_def recv_fails)

lemma read_line_unfold_second_fails:
  assumes "socket_read s (buffer w) BUFFER_SIZE True w = (Inr n, b1, w1)" and "0 < n"
    and "scan_eol b1 0 n 0 = (p, 2)"
    and "socket_read s b1 p False (w1\<lparr>buffer := b1\<rparr>) = (Inl e, b2, w2)"
  shows "socket_read_line s w = (Inl e, w2\<lparr>buffer := b2\<rparr>)"
  using assms by (simp add: socket_read_line_def)

lemma read_line_second_fails:
  assumes "err (next_answer w) = 0"
    and "2 \<le> eol_count (take BUFFER_SIZE (rxq w (fd s)))"
    and "err (script w (Suc (length (trace w)))) \<noteq> 0"
  shows "fst (socket_read_line s w) =
           Inl (socket_error (''Error reading from connected host: ''
                  @ show_int (err (script w (Suc (length (trace w)))))))"
proof -
  define win where "win = take BUFFER_SIZE (rxq w (fd s))"
  define p where "p = fst (scan_list win 0)"
  define b1 where "b1 = store (buffer w) win"
  define w1 where "w1 = logged (Recv (fd s) BUFFER_SIZE True) w"
  have ne: "0 < length win"
    using assms(2) unfolding win_def
    by (cases "take BUFFER_SIZE (rxq w (fd s))") (auto simp: eol_count_def)
  have f: "snd (scan_list win 0) = 2"
    using assms(2) unfolding win_def by (simp add: scan_list_found eol_count_def)
  have a1: "next_answer (w1\<lparr>buffer := b1\<rparr>) = script w (Suc (length (trace w)))"
    by (simp add: next_answer_def logged_def w1_def)
  have one: "socket_read s (buffer w) BUFFER_SIZE True w = (Inr (length win), b1, w1)"
    unfolding win_def b1_def w1_def by (rule peek_ok[OF assms(1)])
  have sc: "scan_eol b1 0 (length win) 0 = (p, 2)"
    unfolding b1_def scan_window p_def using f by (simp add: prod_eq_iff)
  have two: "socket_read s b1 p False (w1\<lparr>buffer := b1\<rparr>) =
     (Inl (socket_error (''Error reading from connected host: ''
             @ show_int (err (script w (Suc (length (trace w))))))),
      b1, (logged (Recv (fd s) p False) (w1\<lparr>buffer := b1\<rparr>))
            \<lparr>errno := err (script w (Suc (length (trace w))))\<rparr>)"
    using recv_fails[of "w1\<lparr>buffer := b1\<rparr>" s b1 p False] assms(3) by (simp add: a1)
  show ?thesis
    using read_line_unfold_second_fails[OF one ne sc two] by simp
qed

lemma recv_error_is_not_line_not_found:
  assumes "r = Inl (socket_error (''Error reading from connected host: '' @ show_int e))"
  shows "\<not> (\<exists>msg. r = Inl (socket_error msg) \<and> contains ''Line not found'' msg)"
proof
  assume "\<exists>msg. r = Inl (socket_error msg) \<and> contains ''Line not found'' msg"
  then obtain msg where m: "r = Inl (socket_error msg)" and c: "contains ''Line not found'' msg"
    by blast
  from m assms have "msg = ''Error reading from connected host: '' @ show_int e"
    by simp
  with c have "contains ''Line not found'' (''Error reading from connected host: '' @ show_int e)"
    by blast
  with recv_message_not_line_not_found show False
    by blast
qed


section \<open>Properties of read\<close>

text \<open>
  C8. \<^verbatim>\<open>read(buffer, max_length, peek)\<close> raises an error if and only if the receive call
  returns a negative result, and the error is a socket error whose message ends with
  \<^verbatim>\<open>errno\<close>; a receive result of 0 bytes is returned to the caller as 0.
\<close>

theorem socket_read_error_iff_recv_negative:
  "((\<exists>e. fst (socket_read s buf len peek w) = Inl e) \<longleftrightarrow>
      fst (os_recv (fd s) len peek w) < 0) \<and>
   (fst (os_recv (fd s) len peek w) < 0 \<longrightarrow>
      fst (socket_read s buf len peek w) =
        Inl (socket_error (''Error reading from connected host: ''
               @ show_int (errno (snd (snd (os_recv (fd s) len peek w))))))) \<and>
   (fst (os_recv (fd s) len peek w) = 0 \<longrightarrow> fst (socket_read s buf len peek w) = Inr 0)"
  by (simp add: socket_read_def os_recv_def logged_def to_unsigned_def split: prod.splits)

theorem socket_read_error_iff_recv_negative_witness:
  "fst (os_recv 3 10 False (scripted [])) = 0 \<and>
   fst (socket_read (socket_ctor_fd 3) [] 10 False (scripted [])) = Inr 0 \<and>
   fst (os_recv 3 10 False (scripted [failing 104])) < 0 \<and>
   fst (socket_read (socket_ctor_fd 3) [] 10 False (scripted [failing 104])) =
     Inl (socket_error ''Error reading from connected host: 104'')"
  using socket_read_error_iff_recv_negative [of "socket_ctor_fd 3" "[]" 10 False "scripted []"]
    socket_read_error_iff_recv_negative [of "socket_ctor_fd 3" "[]" 10 False "scripted [failing 104]"]
  by (simp add: os_recv_def next_answer_def scripted_def willing_def failing_def logged_def
      socket_ctor_fd_def show_int_def decimal.simps digit_def)

section \<open>Properties of read_line\<close>

text \<open>
  C3. \<^verbatim>\<open>read_line()\<close> returns the empty string when the peek read yields zero bytes. It
  raises a socket error whose message contains "Line not found" if and only if the peek
  read yields at least one byte (and at most 4096) with fewer than two EOL markers among
  them; in that case the only call made is the peek, and every receive queue is as it was.
\<close>

theorem read_line_empty_or_line_not_found:
  "(peeked s w = Inr [] \<longrightarrow> fst (socket_read_line s w) = Inr []) \<and>
   ((\<exists>msg. fst (socket_read_line s w) = Inl (socket_error msg) \<and> contains ''Line not found'' msg)
      \<longleftrightarrow> (\<exists>win. peeked s w = Inr win \<and> win \<noteq> [] \<and> length win \<le> 4096 \<and> eol_count win < 2)) \<and>
   ((\<exists>msg. fst (socket_read_line s w) = Inl (socket_error msg) \<and> contains ''Line not found'' msg)
      \<longrightarrow> rxq (snd (socket_read_line s w)) = rxq w \<and>
          trace (snd (socket_read_line s w)) = trace w @ [Recv (fd s) BUFFER_SIZE True])"
proof -
  define L where "L \<longleftrightarrow>
    (\<exists>msg. fst (socket_read_line s w) = Inl (socket_error msg) \<and> contains ''Line not found'' msg)"
  have "(peeked s w = Inr [] \<longrightarrow> fst (socket_read_line s w) = Inr []) \<and>
    (L \<longleftrightarrow> (\<exists>win. peeked s w = Inr win \<and> win \<noteq> [] \<and> length win \<le> 4096 \<and> eol_count win < 2)) \<and>
    (L \<longrightarrow> rxq (snd (socket_read_line s w)) = rxq w \<and>
          trace (snd (socket_read_line s w)) = trace w @ [Recv (fd s) BUFFER_SIZE True])"
  proof (cases "err (next_answer w) = 0")
    case False
    then obtain e where pe: "peeked s w = Inl e"
      using peeked_fails by blast
    have "fst (socket_read_line s w) =
        Inl (socket_error (''Error reading from connected host: '' @ show_int (err (next_answer w))))"
      using False by (simp add: read_line_recv_fails)
    then have "\<not> L"
      unfolding L_def by (rule recv_error_is_not_line_not_found)
    with pe show ?thesis
      by simp
  next
    case ok: True
    define win where "win = take BUFFER_SIZE (rxq w (fd s))"
    have pk: "peeked s w = Inr win"
      unfolding win_def by (rule peeked_ok[OF ok])
    have wl: "length win \<le> 4096"
      by (simp add: win_def BUFFER_SIZE_def)
    show ?thesis
    proof (cases "rxq w (fd s) = []")
      case True
      then have "win = []" by (simp add: win_def)
      moreover have "fst (socket_read_line s w) = Inr []"
        using ok True by (simp add: read_line_no_data)
      moreover from this have "\<not> L"
        by (simp add: L_def)
      ultimately show ?thesis
        using pk by simp
    next
      case ne: False
      then have wne: "win \<noteq> []"
        by (simp add: win_def BUFFER_SIZE_def)
      show ?thesis
      proof (cases "eol_count win < 2")
        case True
        define M where "M = ''Line not found'' @ '': '' @ decimal (eol_count win)"
        have r: "socket_read_line s w =
           (Inl (socket_error M),
            (logged (Recv (fd s) BUFFER_SIZE True) w)\<lparr>buffer := store (buffer w) win\<rparr>)"
          using read_line_not_found[OF ok ne] True by (simp add: win_def M_def)
        then have r1: "fst (socket_read_line s w) = Inl (socket_error M)"
          by simp
        have "contains ''Line not found'' M"
          unfolding M_def by (rule contains_prefix)
        with r1 have "L"
          unfolding L_def by blast
        with pk wne wl True r show ?thesis
          by (simp add: logged_def)
      next
        case False
        then have two: "2 \<le> eol_count (take BUFFER_SIZE (rxq w (fd s)))"
          by (simp add: win_def)
        have "\<not> L"
        proof (cases "err (script w (Suc (length (trace w)))) = 0")
          case True
          show ?thesis
            using read_line_found(1)[OF ok two True] by (simp add: L_def)
        next
          case False
          show ?thesis
            unfolding L_def using read_line_second_fails[OF ok two False]
            by (rule recv_error_is_not_line_not_found)
        qed
        with pk wne False show ?thesis
          by simp
      qed
    qed
  qed
  then show ?thesis
    unfolding L_def .
qed

theorem read_line_empty_or_line_not_found_witness:
  "peeked (socket_ctor_fd 3) (scripted []) = Inr [] \<and>
   fst (socket_read_line (socket_ctor_fd 3) (scripted [])) = Inr [] \<and>
   peeked (socket_ctor_fd 3) (arrived 3 ''foobar'' (scripted [])) = Inr ''foobar'' \<and>
   eol_count ''foobar'' = 0 \<and>
   (\<exists>msg. fst (socket_read_line (socket_ctor_fd 3) (arrived 3 ''foobar'' (scripted [])))
            = Inl (socket_error msg) \<and> contains ''Line not found'' msg) \<and>
   rxq (snd (socket_read_line (socket_ctor_fd 3) (arrived 3 ''foobar'' (scripted [])))) 3
     = ''foobar''"
proof -
  have ok0: "err (next_answer (scripted [])) = 0"
    by (simp add: next_answer_def scripted_def willing_def)
  have p0: "peeked (socket_ctor_fd 3) (scripted []) = Inr []"
    using peeked_ok[OF ok0, of "socket_ctor_fd 3"] by (simp add: scripted_def)
  have ok1: "err (next_answer (arrived 3 ''foobar'' (scripted []))) = 0"
    by (simp add: next_answer_def arrived_def scripted_def willing_def)
  have p1: "peeked (socket_ctor_fd 3) (arrived 3 ''foobar'' (scripted [])) = Inr ''foobar''"
    using peeked_ok[OF ok1, of "socket_ctor_fd 3"]
    by (simp add: arrived_def scripted_def socket_ctor_fd_def BUFFER_SIZE_def)
  have e: "eol_count ''foobar'' = 0"
    by (simp add: eol_count_def is_eol_def CR_def LF_def)
  have q: "rxq (arrived 3 ''foobar'' (scripted [])) 3 = ''foobar''"
    by (simp add: arrived_def scripted_def)
  show ?thesis
    using read_line_empty_or_line_not_found [of "socket_ctor_fd 3" "scripted []"]
      read_line_empty_or_line_not_found [of "socket_ctor_fd 3" "arrived 3 ''foobar'' (scripted [])"]
      p0 p1 e q
    by simp
qed

text \<open>
  A line: bytes that are not markers, then two markers next to each other. The scan stops
  right after the second marker, and \<^verbatim>\<open>read_line\<close> returns the bytes before the first.
\<close>

lemma scan_list_stop: "2 \<le> f \<Longrightarrow> scan_list xs f = (0, f)"
  by (cases xs) simp_all

lemma scan_list_line:
  assumes "\<forall>c \<in> set X. \<not> is_eol c" and "is_eol m1" and "is_eol m2"
  shows "scan_list (X @ m1 # m2 # rest) 0 = (length X + 2, 2)"
  using scan_list_skip[OF assms(1), of 0 "m1 # m2 # rest"] assms(2,3)
  by (simp add: scan_list_stop)

lemma read_line_adjacent_markers:
  assumes "\<forall>c \<in> set X. \<not> is_eol c" and "is_eol m1" and "is_eol m2"
    and "rxq w (fd s) = X @ m1 # m2 # rest" and "length X + 2 \<le> 4096"
    and "err (next_answer w) = 0" and "err (script w (Suc (length (trace w)))) = 0"
  shows "fst (socket_read_line s w) = Inr X"
    and "rxq (snd (socket_read_line s w)) (fd s) = rest"
proof -
  define win where "win = take BUFFER_SIZE (rxq w (fd s))"
  have "BUFFER_SIZE - length X = Suc (Suc (BUFFER_SIZE - (length X + 2)))"
    using assms(5) by (simp add: BUFFER_SIZE_def)
  then have win: "win = X @ m1 # m2 # take (BUFFER_SIZE - (length X + 2)) rest"
    using assms(5) by (simp add: win_def assms(4))
  have sc: "scan_list win 0 = (length X + 2, 2)"
    unfolding win by (rule scan_list_line[OF assms(1-3)])
  have "snd (scan_list win 0) = min 2 (0 + eol_count win)"
    unfolding eol_count_def by (rule scan_list_found) simp
  then have two: "2 \<le> eol_count (take BUFFER_SIZE (rxq w (fd s)))"
    by (simp add: sc flip: win_def)
  have "fst (socket_read_line s w) = Inr (take (length X + 2 - 2) (rxq w (fd s)))"
    using read_line_found(1)[OF assms(6) two assms(7)] by (simp add: sc flip: win_def)
  then show "fst (socket_read_line s w) = Inr X"
    by (simp add: assms(4))
  have "rxq (snd (socket_read_line s w)) =
      (rxq w)(fd s := drop (length X + 2) (rxq w (fd s)))"
    using read_line_found(2)[OF assms(6) two assms(7)] by (simp add: sc flip: win_def)
  then show "rxq (snd (socket_read_line s w)) (fd s) = rest"
    by (simp add: assms(4))
qed

text \<open>
  C2. The claim: with at least two EOL markers within the first 4096 bytes available,
  \<^verbatim>\<open>read_line()\<close> returns the bytes before the first marker and consumes nothing beyond
  the second marker. It holds when the two markers are next to each other
  (\<open>read_line_adjacent_markers\<close>). When they are apart, the code still strips the last
  two bytes of what it consumed: on the four bytes a, CR, b, LF it consumes all four and
  returns a, CR, where the bytes before the first marker are the single byte a.
\<close>

theorem read_line_separated_markers:
  "fst (socket_read_line (socket_ctor_fd 3)
         (arrived 3 [CHR ''a'', CR, CHR ''b'', LF] (scripted [])))
     = Inr [CHR ''a'', CR] \<and>
   rxq (snd (socket_read_line (socket_ctor_fd 3)
         (arrived 3 [CHR ''a'', CR, CHR ''b'', LF] (scripted [])))) 3 = [] \<and>
   takeWhile (\<lambda>c. \<not> is_eol c) [CHR ''a'', CR, CHR ''b'', LF] = [CHR ''a'']"
proof -
  define w where "w = arrived 3 [CHR ''a'', CR, CHR ''b'', LF] (scripted [])"
  define s where "s = socket_ctor_fd 3"
  have q: "rxq w (fd s) = [CHR ''a'', CR, CHR ''b'', LF]"
    by (simp add: w_def s_def arrived_def scripted_def socket_ctor_fd_def)
  have win: "take BUFFER_SIZE (rxq w (fd s)) = [CHR ''a'', CR, CHR ''b'', LF]"
    by (simp add: q BUFFER_SIZE_def)
  have ok1: "err (next_answer w) = 0" and ok2: "err (script w (Suc (length (trace w)))) = 0"
    by (simp_all add: w_def next_answer_def arrived_def scripted_def willing_def)
  have e: "is_eol CR" "is_eol LF" "\<not> is_eol (CHR ''a'')" "\<not> is_eol (CHR ''b'')"
    by (simp_all add: is_eol_def CR_def LF_def)
  have two: "2 \<le> eol_count (take BUFFER_SIZE (rxq w (fd s)))"
    by (simp add: win eol_count_def e)
  have sc: "scan_list [CHR ''a'', CR, CHR ''b'', LF] 0 = (4, 2)"
    by (simp add: e)
  have r: "fst (socket_read_line s w) = Inr [CHR ''a'', CR]"
    using read_line_found(1)[OF ok1 two ok2] unfolding win sc unfolding q by simp
  have "rxq (snd (socket_read_line s w)) = (rxq w)(fd s := drop 4 (rxq w (fd s)))"
    using read_line_found(2)[OF ok1 two ok2] unfolding win sc by simp
  then have d: "rxq (snd (socket_read_line s w)) 3 = []"
    by (simp add: q) (simp add: s_def socket_ctor_fd_def)
  show ?thesis
    using r d by (simp add: w_def s_def e)
qed

section \<open>Properties of write and write_line\<close>

lemma write_all:
  assumes "fd a \<noteq> 0" and "err (next_answer w) = 0" and "length bytes \<le> room (next_answer w)"
    and "length bytes < 2 ^ 32"
  shows "socket_write a bytes w =
     (Inr (length bytes),
      case peer w (fd a) of
        None \<Rightarrow> logged (Send (fd a) bytes) w
      | Some p \<Rightarrow> (logged (Send (fd a) bytes) w)\<lparr>rxq := (rxq w)(p := rxq w p @ bytes)\<rparr>)"
  using assms by (simp add: socket_write_def os_send_def to_unsigned_small split: option.splits)

text \<open>
  C7, as the code has it. \<^verbatim>\<open>write(buffer, length)\<close> raises "Not connected" exactly when the
  stored descriptor is 0, and then calls nothing. With any other descriptor, a negative
  one too, it calls \<^verbatim>\<open>send\<close> once: when that call reports an error, \<^verbatim>\<open>write\<close> raises a
  socket error whose message ends with \<^verbatim>\<open>errno\<close>; otherwise it returns the count of the
  call as an \<^verbatim>\<open>unsigned\<close>, which is at most the length, can be less, and is the count
  itself below \<open>2 ^ 32\<close>.
\<close>

theorem socket_write_outcomes:
  "(fd s = 0 \<longrightarrow> socket_write s bytes w = (Inl (socket_error ''Not connected''), w)) \<and>
   (fd s \<noteq> 0 \<longrightarrow>
      fst (socket_write s bytes w) \<noteq> Inl (socket_error ''Not connected'') \<and>
      trace (snd (socket_write s bytes w)) = trace w @ [Send (fd s) bytes]) \<and>
   (fd s \<noteq> 0 \<and> fst (os_send (fd s) bytes w) < 0 \<longrightarrow>
      fst (socket_write s bytes w) =
        Inl (socket_error (''Error writing to connected host: ''
               @ show_int (errno (snd (os_send (fd s) bytes w)))))) \<and>
   (fd s \<noteq> 0 \<and> 0 \<le> fst (os_send (fd s) bytes w) \<longrightarrow>
      fst (socket_write s bytes w) = Inr (to_unsigned (fst (os_send (fd s) bytes w))) \<and>
      fst (os_send (fd s) bytes w) \<le> int (length bytes) \<and>
      (fst (os_send (fd s) bytes w) < 2 ^ 32 \<longrightarrow>
         int (to_unsigned (fst (os_send (fd s) bytes w))) = fst (os_send (fd s) bytes w)))"
  by (simp add: socket_write_def os_send_def logged_def to_unsigned_def
      split: prod.splits option.splits)

theorem socket_write_outcomes_witness:
  "fst (socket_write socket_ctor ''x'' (scripted [])) = Inl (socket_error ''Not connected'') \<and>
   trace (snd (socket_write socket_ctor ''x'' (scripted []))) = [] \<and>
   fst (socket_write (socket_ctor_fd 3) ''foobar'' (scripted [willing\<lparr>room := 4\<rparr>])) = Inr 4 \<and>
   trace (snd (socket_write (socket_ctor_fd 3) ''foobar'' (scripted [willing\<lparr>room := 4\<rparr>])))
     = [Send 3 ''foobar''] \<and>
   fst (socket_write (socket_ctor_fd 3) ''x'' (scripted [failing 32]))
     = Inl (socket_error ''Error writing to connected host: 32'')"
  using socket_write_outcomes [of socket_ctor "''x''" "scripted []"]
    socket_write_outcomes [of "socket_ctor_fd 3" "''foobar''" "scripted [willing\<lparr>room := 4\<rparr>]"]
    socket_write_outcomes [of "socket_ctor_fd 3" "''x''" "scripted [failing 32]"]
  by (simp add: socket_ctor_def socket_ctor_fd_def os_send_def next_answer_def scripted_def
      willing_def failing_def logged_def to_unsigned_def show_int_def decimal.simps digit_def)

text \<open>
  C7 as stated fails on a handle whose descriptor is negative: it holds no valid
  descriptor (valid is greater than 0), and \<^verbatim>\<open>write\<close> calls \<^verbatim>\<open>send\<close>; here the system
  answers \<^verbatim>\<open>EBADF\<close> (9).
\<close>

theorem socket_write_negative_descriptor:
  "\<not> 0 < fd (socket_ctor_fd (- 1)) \<and>
   fst (socket_write (socket_ctor_fd (- 1)) ''x'' (scripted [failing 9]))
     = Inl (socket_error ''Error writing to connected host: 9'') \<and>
   fst (socket_write (socket_ctor_fd (- 1)) ''x'' (scripted [failing 9]))
     \<noteq> Inl (socket_error ''Not connected'')"
  by (simp add: socket_write_def socket_ctor_fd_def os_send_def next_answer_def scripted_def
      willing_def failing_def logged_def show_int_def decimal.simps digit_def)

text \<open>
  C1. For every string \<open>X\<close> without CR and LF and with \<open>length X + 2 \<le> 4096\<close>:
  \<^verbatim>\<open>write_line(X)\<close> on a connected handle \<open>a\<close>, then \<^verbatim>\<open>read_line()\<close> on the handle \<open>b\<close> of
  the peer, returns exactly \<open>X\<close>, and the line is consumed. The connection is a working
  one: the peer has nothing unread, the system takes the whole line at once (\<open>room\<close>) and
  fails none of the three calls.
\<close>

theorem write_line_read_line_roundtrip:
  assumes "CR \<notin> set X" and "LF \<notin> set X" and "length X + 2 \<le> 4096"
    and "fd a \<noteq> 0" and "peer w (fd a) = Some (fd b)" and "rxq w (fd b) = []"
    and "err (next_answer w) = 0" and "length X + 2 \<le> room (next_answer w)"
    and "err (script w (length (trace w) + 1)) = 0"
    and "err (script w (length (trace w) + 2)) = 0"
  shows "fst (socket_write_line a X w) = Inr (length X + 2) \<and>
         fst (socket_read_line b (snd (socket_write_line a X w))) = Inr X \<and>
         rxq (snd (socket_read_line b (snd (socket_write_line a X w)))) (fd b) = []"
proof -
  define line where "line = X @ [CR, LF]"
  define w1 where "w1 = (logged (Send (fd a) line) w)\<lparr>rxq := (rxq w)(fd b := line)\<rparr>"
  have ll: "length line = length X + 2"
    by (simp add: line_def)
  have wr: "socket_write_line a X w = (Inr (length X + 2), w1)"
    unfolding socket_write_line_def
    using write_all[of a w line] assms(3-8) by (simp add: ll w1_def flip: line_def)
  have q1: "rxq w1 (fd b) = line" and t1: "length (trace w1) = length (trace w) + 1"
    and s1: "script w1 = script w"
    by (simp_all add: w1_def logged_def)
  have win: "take BUFFER_SIZE (rxq w1 (fd b)) = line"
    using assms(3) by (simp add: q1 BUFFER_SIZE_def ll)
  have noeol: "\<forall>c \<in> set X. \<not> is_eol c"
    using assms(1,2) by (auto simp: is_eol_def)
  have sc: "scan_list line 0 = (length X + 2, 2)"
    unfolding line_def using scan_list_line[OF noeol, of CR LF "[]"] by (simp add: is_eol_def)
  have ec: "eol_count line = 2"
    using noeol by (simp add: eol_count_def line_def is_eol_def)
  have ok1: "err (next_answer w1) = 0"
    using assms(9) by (simp add: next_answer_def s1 t1)
  have two: "2 \<le> eol_count (take BUFFER_SIZE (rxq w1 (fd b)))"
    by (simp add: win ec)
  have ok2: "err (script w1 (Suc (length (trace w1)))) = 0"
    using assms(10) by (simp add: s1 t1)
  have tk: "take (length X) line = X" and dr: "drop (length X + 2) line = []"
    by (simp_all add: line_def)
  have "fst (socket_read_line b w1) = Inr (take (length X + 2 - 2) line)"
    using read_line_found(1)[OF ok1 two ok2] unfolding win sc unfolding q1 by simp
  then have r: "fst (socket_read_line b w1) = Inr X"
    by (simp add: tk)
  have "rxq (snd (socket_read_line b w1)) = (rxq w1)(fd b := drop (length X + 2) line)"
    using read_line_found(2)[OF ok1 two ok2] unfolding win sc unfolding q1 by simp
  then have q: "rxq (snd (socket_read_line b w1)) (fd b) = []"
    by (simp add: ll)
  show ?thesis
    using wr r q by simp
qed

theorem write_line_read_line_roundtrip_witness:
  "CR \<notin> set ''foobar'' \<and> LF \<notin> set ''foobar'' \<and> length ''foobar'' + 2 \<le> 4096 \<and>
   fst (socket_write_line (socket_ctor_fd 4) ''foobar'' (connected 4 3 (scripted []))) = Inr 8 \<and>
   fst (socket_read_line (socket_ctor_fd 3)
         (snd (socket_write_line (socket_ctor_fd 4) ''foobar'' (connected 4 3 (scripted [])))))
     = Inr ''foobar''"
  using write_line_read_line_roundtrip
    [of "''foobar''" "socket_ctor_fd 4" "connected 4 3 (scripted [])" "socket_ctor_fd 3"]
  by (simp add: CR_def LF_def connected_def scripted_def next_answer_def willing_def
      socket_ctor_fd_def)

section \<open>Properties of connect\<close>

text \<open>Definitions that the examples unfold.\<close>

lemmas eval_defs =
  scripted_def willing_def failing_def loopback_def tcp_traits_def AI_PASSIVE_def PF_INET_def
  SOCK_STREAM_def IPPROTO_TCP_def socket_impl_ctor_def c_str_def show_int_def decimal.simps
  digit_def EAI_NONAME_def

text \<open>
  C4. \<^verbatim>\<open>connect(name, port)\<close> on a handle whose descriptor is greater than 0 raises the
  socket error "Socket already exists." at once: no call is made (the world is the one
  before), and the descriptor and the stored addresses of the handle are unchanged. This
  holds for the client and for the server.
\<close>

theorem connect_on_connected_handle:
  "0 < fd h \<Longrightarrow>
   socket_impl_connect Client traits h name port w =
     (Inl (socket_error ''Socket already exists.''), h, w) \<and>
   socket_impl_connect Server traits h name port w =
     (Inl (socket_error ''Socket already exists.''), h, w)"
  by (simp add: socket_impl_connect_def)

theorem connect_on_connected_handle_witness:
  "0 < fd \<lparr>fd = 3, res0 = [loopback]\<rparr> \<and>
   fst (socket_impl_connect Client tcp_traits \<lparr>fd = 3, res0 = [loopback]\<rparr> ''localhost'' 1234
          (scripted [])) = Inl (socket_error ''Socket already exists.'') \<and>
   trace (snd (snd (socket_impl_connect Client tcp_traits \<lparr>fd = 3, res0 = [loopback]\<rparr>
          ''localhost'' 1234 (scripted [])))) = [] \<and>
   fst (socket_impl_connect Server tcp_traits \<lparr>fd = 3, res0 = [loopback]\<rparr> ''localhost'' 1234
          (scripted [])) = Inl (socket_error ''Socket already exists.'') \<and>
   fst (snd (socket_impl_connect Server tcp_traits \<lparr>fd = 3, res0 = [loopback]\<rparr> ''localhost''
          1234 (scripted []))) = \<lparr>fd = 3, res0 = [loopback]\<rparr>"
  using connect_on_connected_handle
    [of "\<lparr>fd = 3, res0 = [loopback]\<rparr>" tcp_traits "''localhost''" 1234 "scripted []"]
  by (simp add: scripted_def)

text \<open>
  C6. The finishing step of the server makes three calls in this order: \<^verbatim>\<open>setsockopt\<close> with
  \<^verbatim>\<open>SO_REUSEADDR\<close>, \<^verbatim>\<open>bind\<close> to the address of the first candidate, \<^verbatim>\<open>listen\<close> with a
  backlog of 10000. The first call that fails ends it with a socket error whose message
  ends with \<^verbatim>\<open>errno\<close>, and the calls after it are not made. The handle holds the resolved
  addresses, as it does when \<^verbatim>\<open>connect\<close> calls the step.
\<close>

theorem server_do_connect_steps:
  assumes "res0 h = c # cs"
  shows
   "(err (script w (length (trace w))) \<noteq> 0 \<longrightarrow>
       server_do_connect h w =
         (Inl (socket_error (''Could not configure socket: ''
                 @ show_int (err (script w (length (trace w)))))),
          w\<lparr>trace := trace w @ [Setsockopt (fd h) SOL_SOCKET SO_REUSEADDR 1],
            errno := err (script w (length (trace w)))\<rparr>)) \<and>
    (err (script w (length (trace w))) = 0 \<and> err (script w (length (trace w) + 1)) \<noteq> 0 \<longrightarrow>
       server_do_connect h w =
         (Inl (socket_error (''Could not bind to socket: ''
                 @ show_int (err (script w (length (trace w) + 1))))),
          w\<lparr>trace := trace w @ [Setsockopt (fd h) SOL_SOCKET SO_REUSEADDR 1,
                                  Bind (fd h) (ai_addr c) (ai_addrlen c)],
            errno := err (script w (length (trace w) + 1))\<rparr>)) \<and>
    (err (script w (length (trace w))) = 0 \<and> err (script w (length (trace w) + 1)) = 0 \<and>
     err (script w (length (trace w) + 2)) \<noteq> 0 \<longrightarrow>
       server_do_connect h w =
         (Inl (socket_error (''Could not listen for incoming connections: ''
                 @ show_int (err (script w (length (trace w) + 2))))),
          w\<lparr>trace := trace w @ [Setsockopt (fd h) SOL_SOCKET SO_REUSEADDR 1,
                                  Bind (fd h) (ai_addr c) (ai_addrlen c), Listen (fd h) 10000],
            errno := err (script w (length (trace w) + 2))\<rparr>)) \<and>
    (err (script w (length (trace w))) = 0 \<and> err (script w (length (trace w) + 1)) = 0 \<and>
     err (script w (length (trace w) + 2)) = 0 \<longrightarrow>
       server_do_connect h w =
         (Inr (),
          w\<lparr>trace := trace w @ [Setsockopt (fd h) SOL_SOCKET SO_REUSEADDR 1,
                                  Bind (fd h) (ai_addr c) (ai_addrlen c),
                                  Listen (fd h) 10000]\<rparr>))"
  using assms
  by (simp add: server_do_connect_def os_status_def next_answer_def logged_def)

theorem server_do_connect_steps_witness:
  "res0 \<lparr>fd = 3, res0 = [loopback]\<rparr> = loopback # [] \<and>
   fst (server_do_connect \<lparr>fd = 3, res0 = [loopback]\<rparr> (scripted [])) = Inr () \<and>
   trace (snd (server_do_connect \<lparr>fd = 3, res0 = [loopback]\<rparr> (scripted []))) =
     [Setsockopt 3 SOL_SOCKET SO_REUSEADDR 1,
      Bind 3 (ai_addr loopback) (ai_addrlen loopback), Listen 3 10000] \<and>
   fst (server_do_connect \<lparr>fd = 3, res0 = [loopback]\<rparr> (scripted [willing, failing 98])) =
     Inl (socket_error ''Could not bind to socket: 98'') \<and>
   trace (snd (server_do_connect \<lparr>fd = 3, res0 = [loopback]\<rparr> (scripted [willing, failing 98]))) =
     [Setsockopt 3 SOL_SOCKET SO_REUSEADDR 1,
      Bind 3 (ai_addr loopback) (ai_addrlen loopback)]"
  using server_do_connect_steps
    [of "\<lparr>fd = 3, res0 = [loopback]\<rparr>" loopback "[]" "scripted []"]
    server_do_connect_steps
    [of "\<lparr>fd = 3, res0 = [loopback]\<rparr>" loopback "[]" "scripted [willing, failing 98]"]
  by (simp add: scripted_def willing_def failing_def show_int_def decimal.simps digit_def)

text \<open>
  The finishing steps read the first candidate only.
\<close>

lemma do_connect_first_candidate:
  "do_connect v (h\<lparr>res0 := c # cs\<rparr>) w = do_connect v (h\<lparr>res0 := [c]\<rparr>) w"
  by (cases v)
    (simp_all add: do_connect_def client_do_connect_def server_do_connect_def split: prod.splits)

lemma client_do_connect_trace:
  "res0 h = c # cs \<Longrightarrow>
   trace (snd (client_do_connect h w)) = trace w @ [Connect (fd h) (ai_addr c) (ai_addrlen c)]"
  by (simp add: client_do_connect_def os_status_def logged_def)

text \<open>
  C5. On a handle without a descriptor greater than 0, \<^verbatim>\<open>connect(name, port)\<close> first calls
  the resolver with the four constants of the traits as hints, and raises a socket error
  with the resolver's code when it fails; then it creates the descriptor from the family,
  socket type and protocol of the first candidate, and raises a socket error with
  \<^verbatim>\<open>errno\<close> when that fails; then it runs the finishing step, which sees the first
  candidate only. No later candidate is tried: the client's calls are the resolver's,
  one \<^verbatim>\<open>socket\<close> and one \<^verbatim>\<open>connect\<close>, whether the last succeeds or not.
  \<open>a0\<close> and \<open>a1\<close> are the answers of the system to the first two calls.
\<close>

theorem connect_steps:
  fixes traits :: socket_traits and name :: string and port :: nat and w :: world
  defines "G \<equiv> Getaddrinfo (c_str name) (decimal port)
      \<lparr>ai_flags = flags traits, ai_family = family traits, ai_socktype = type traits,
       ai_protocol = protocol traits, ai_addrlen = 0, ai_addr = []\<rparr>"
    and "a0 \<equiv> script w (length (trace w))"
    and "a1 \<equiv> script w (length (trace w) + 1)"
  assumes "\<not> 0 < fd h"
  shows
   "(err a0 \<noteq> 0 \<longrightarrow>
       socket_impl_connect v traits h name port w =
         (Inl (socket_error (''Could not resolve address: ('' @ show_int (err a0) @ '') ''
                 @ gai_strerror w (err a0))),
          h, w\<lparr>trace := trace w @ [G]\<rparr>)) \<and>
    (err a0 = 0 \<and> found a0 = [] \<longrightarrow>
       socket_impl_connect v traits h name port w =
         (Inl (socket_error (''Could not resolve address: ('' @ show_int EAI_NONAME @ '') ''
                 @ gai_strerror w EAI_NONAME)),
          h, w\<lparr>trace := trace w @ [G]\<rparr>)) \<and>
    (err a0 = 0 \<and> found a0 = c # cs \<and> err a1 \<noteq> 0 \<longrightarrow>
       socket_impl_connect v traits h name port w =
         (Inl (socket_error (''Could not create socket: '' @ show_int (err a1))),
          h\<lparr>res0 := c # cs, fd := - 1\<rparr>,
          w\<lparr>trace := trace w @ [G, Socket (ai_family c) (ai_socktype c) (ai_protocol c)],
            errno := err a1\<rparr>)) \<and>
    (err a0 = 0 \<and> found a0 = c # cs \<and> err a1 = 0 \<longrightarrow>
       socket_impl_connect v traits h name port w =
         (fst (do_connect v (h\<lparr>res0 := [c], fd := int (new_fd a1)\<rparr>)
                 (w\<lparr>trace := trace w @ [G, Socket (ai_family c) (ai_socktype c) (ai_protocol c)]\<rparr>)),
          h\<lparr>res0 := c # cs, fd := int (new_fd a1)\<rparr>,
          snd (do_connect v (h\<lparr>res0 := [c], fd := int (new_fd a1)\<rparr>)
                 (w\<lparr>trace := trace w @ [G, Socket (ai_family c) (ai_socktype c) (ai_protocol c)]\<rparr>))) \<and>
       trace (snd (snd (socket_impl_connect Client traits h name port w))) =
         trace w @ [G, Socket (ai_family c) (ai_socktype c) (ai_protocol c),
                    Connect (int (new_fd a1)) (ai_addr c) (ai_addrlen c)])"
proof -
  have ga_fail: "err a0 \<noteq> 0 \<Longrightarrow>
      os_getaddrinfo (c_str name) (decimal port) (hints_of traits) w =
        (err a0, [], w\<lparr>trace := trace w @ [G]\<rparr>)"
    by (simp add: os_getaddrinfo_def next_answer_def logged_def hints_of_def G_def a0_def)
  have ga_none: "err a0 = 0 \<Longrightarrow> found a0 = [] \<Longrightarrow>
      os_getaddrinfo (c_str name) (decimal port) (hints_of traits) w =
        (EAI_NONAME, [], w\<lparr>trace := trace w @ [G]\<rparr>)"
    by (simp add: os_getaddrinfo_def next_answer_def logged_def hints_of_def G_def a0_def)
  have ga_ok: "err a0 = 0 \<Longrightarrow> found a0 = c # cs \<Longrightarrow>
      os_getaddrinfo (c_str name) (decimal port) (hints_of traits) w =
        (0, c # cs, w\<lparr>trace := trace w @ [G]\<rparr>)"
    by (simp add: os_getaddrinfo_def next_answer_def logged_def hints_of_def G_def a0_def)
  have so_fail: "err a1 \<noteq> 0 \<Longrightarrow>
      os_socket (ai_family c) (ai_socktype c) (ai_protocol c) (w\<lparr>trace := trace w @ [G]\<rparr>) =
        (- 1, w\<lparr>trace := trace w @ [G, Socket (ai_family c) (ai_socktype c) (ai_protocol c)],
                errno := err a1\<rparr>)"
    by (simp add: os_socket_def next_answer_def logged_def a1_def)
  have so_ok: "err a1 = 0 \<Longrightarrow>
      os_socket (ai_family c) (ai_socktype c) (ai_protocol c) (w\<lparr>trace := trace w @ [G]\<rparr>) =
        (int (new_fd a1),
         w\<lparr>trace := trace w @ [G, Socket (ai_family c) (ai_socktype c) (ai_protocol c)]\<rparr>)"
    by (simp add: os_socket_def next_answer_def logged_def a1_def)
  have nz: "EAI_NONAME \<noteq> 0"
    by (simp add: EAI_NONAME_def)
  have first: "do_connect v (h\<lparr>res0 := c # cs, fd := d\<rparr>) w' =
      do_connect v (h\<lparr>res0 := [c], fd := d\<rparr>) w'" for d w'
    by (cases v)
      (simp_all add: do_connect_def client_do_connect_def server_do_connect_def
        split: prod.splits)
  have r1: "err a0 \<noteq> 0 \<longrightarrow>
       socket_impl_connect v traits h name port w =
         (Inl (socket_error (''Could not resolve address: ('' @ show_int (err a0) @ '') ''
                 @ gai_strerror w (err a0))),
          h, w\<lparr>trace := trace w @ [G]\<rparr>)"
    using assms(4) by (simp add: socket_impl_connect_def ga_fail)
  have r2: "err a0 = 0 \<and> found a0 = [] \<longrightarrow>
       socket_impl_connect v traits h name port w =
         (Inl (socket_error (''Could not resolve address: ('' @ show_int EAI_NONAME @ '') ''
                 @ gai_strerror w EAI_NONAME)),
          h, w\<lparr>trace := trace w @ [G]\<rparr>)"
    using assms(4) nz by (simp add: socket_impl_connect_def ga_none)
  have r3: "err a0 = 0 \<and> found a0 = c # cs \<and> err a1 \<noteq> 0 \<longrightarrow>
       socket_impl_connect v traits h name port w =
         (Inl (socket_error (''Could not create socket: '' @ show_int (err a1))),
          h\<lparr>res0 := c # cs, fd := - 1\<rparr>,
          w\<lparr>trace := trace w @ [G, Socket (ai_family c) (ai_socktype c) (ai_protocol c)],
            errno := err a1\<rparr>)"
    using assms(4) by (simp add: socket_impl_connect_def ga_ok so_fail)
  have r4: "err a0 = 0 \<and> found a0 = c # cs \<and> err a1 = 0 \<longrightarrow>
       socket_impl_connect v' traits h name port w =
         (fst (do_connect v' (h\<lparr>res0 := c # cs, fd := int (new_fd a1)\<rparr>)
                 (w\<lparr>trace := trace w @ [G, Socket (ai_family c) (ai_socktype c) (ai_protocol c)]\<rparr>)),
          h\<lparr>res0 := c # cs, fd := int (new_fd a1)\<rparr>,
          snd (do_connect v' (h\<lparr>res0 := c # cs, fd := int (new_fd a1)\<rparr>)
                 (w\<lparr>trace := trace w @ [G, Socket (ai_family c) (ai_socktype c) (ai_protocol c)]\<rparr>)))"
    for v'
    using assms(4) by (simp add: socket_impl_connect_def ga_ok so_ok split: prod.splits)
  have r5: "err a0 = 0 \<and> found a0 = c # cs \<and> err a1 = 0 \<longrightarrow>
       trace (snd (snd (socket_impl_connect Client traits h name port w))) =
         trace w @ [G, Socket (ai_family c) (ai_socktype c) (ai_protocol c),
                    Connect (int (new_fd a1)) (ai_addr c) (ai_addrlen c)]"
    using r4[of Client]
      client_do_connect_trace[of "h\<lparr>res0 := c # cs, fd := int (new_fd a1)\<rparr>" c cs]
    by (simp add: do_connect_def)
  show ?thesis
    using r1 r2 r3 r4[of v] r5 by (simp add: first)
qed

theorem connect_steps_witness:
  "\<not> 0 < fd socket_impl_ctor \<and>
   fst (socket_impl_connect Client tcp_traits socket_impl_ctor ''localhost'' 1234
          (scripted [failing (- 2)]))
     = Inl (socket_error ''Could not resolve address: (-2) Name or service not known'') \<and>
   fst (socket_impl_connect Client tcp_traits socket_impl_ctor ''localhost'' 1234
          (scripted [willing, failing 24]))
     = Inl (socket_error ''Could not create socket: 24'') \<and>
   trace (snd (snd (socket_impl_connect Client tcp_traits socket_impl_ctor ''localhost'' 1234
          (scripted [willing\<lparr>found := [loopback, loopback\<lparr>ai_family := 10\<rparr>]\<rparr>, willing,
                     failing 111]))))
     = [Getaddrinfo ''localhost'' ''1234''
          \<lparr>ai_flags = 1, ai_family = 2, ai_socktype = 1, ai_protocol = 6, ai_addrlen = 0,
           ai_addr = []\<rparr>,
        Socket 2 1 6,
        Connect 3 [2, 0, 4, 210, 127, 0, 0, 1, 0, 0, 0, 0, 0, 0, 0, 0] 16] \<and>
   fst (socket_impl_connect Client tcp_traits socket_impl_ctor ''localhost'' 1234
          (scripted [willing\<lparr>found := [loopback, loopback\<lparr>ai_family := 10\<rparr>]\<rparr>, willing,
                     failing 111]))
     = Inl (socket_error ''Connection failed: 111'')"
  using connect_steps [where h = socket_impl_ctor and w = "scripted [failing (- 2)]"
      and v = Client and name = "''localhost''" and port = 1234 and traits = tcp_traits
      and c = loopback and cs = "[]"]
    connect_steps [where h = socket_impl_ctor and w = "scripted [willing, failing 24]"
      and v = Client and name = "''localhost''" and port = 1234 and traits = tcp_traits
      and c = loopback and cs = "[]"]
    connect_steps [where h = socket_impl_ctor
      and w = "scripted [willing\<lparr>found := [loopback, loopback\<lparr>ai_family := 10\<rparr>]\<rparr>, willing,
                         failing 111]"
      and v = Client and name = "''localhost''" and port = 1234 and traits = tcp_traits
      and c = loopback and cs = "[loopback\<lparr>ai_family := 10\<rparr>]"]
  by (simp add: eval_defs do_connect_def client_do_connect_def os_status_def next_answer_def
      logged_def)


text \<open>
  After a failed resolution the handle is as it was; after a failed \<^verbatim>\<open>socket\<close> call it holds
  -1; after the \<^verbatim>\<open>socket\<close> call succeeded it holds the new descriptor, whatever the
  finishing step does.
\<close>

lemma connect_after_resolver_fails:
  assumes "\<not> 0 < fd h"
    and "err (script w (length (trace w))) \<noteq> 0 \<or> found (script w (length (trace w))) = []"
  shows "\<exists>e. fst (socket_impl_connect v traits h name port w) = Inl e"
    and "fst (snd (socket_impl_connect v traits h name port w)) = h"
  using assms
  by (auto simp: socket_impl_connect_def os_getaddrinfo_def next_answer_def EAI_NONAME_def)

lemma connect_after_socket_fails:
  assumes "\<not> 0 < fd h"
    and "err (script w (length (trace w))) = 0" and "found (script w (length (trace w))) = c # cs"
    and "err (script w (length (trace w) + 1)) \<noteq> 0"
  shows "\<exists>e. fst (socket_impl_connect v traits h name port w) = Inl e"
    and "fst (snd (socket_impl_connect v traits h name port w)) = h\<lparr>res0 := c # cs, fd := - 1\<rparr>"
  using assms
  by (simp_all add: socket_impl_connect_def os_getaddrinfo_def os_socket_def next_answer_def
      logged_def)

lemma connect_after_socket:
  assumes "\<not> 0 < fd h"
    and "err (script w (length (trace w))) = 0" and "found (script w (length (trace w))) = c # cs"
    and "err (script w (length (trace w) + 1)) = 0"
  shows "fst (socket_impl_connect v traits h name port w) =
      fst (do_connect v (h\<lparr>res0 := c # cs, fd := int (new_fd (script w (length (trace w) + 1)))\<rparr>)
            (w\<lparr>trace := trace w @ [Getaddrinfo (c_str name) (decimal port) (hints_of traits),
                   Socket (ai_family c) (ai_socktype c) (ai_protocol c)]\<rparr>))"
    and "fst (snd (socket_impl_connect v traits h name port w)) =
      h\<lparr>res0 := c # cs, fd := int (new_fd (script w (length (trace w) + 1)))\<rparr>"
  using assms
  by (simp_all add: socket_impl_connect_def os_getaddrinfo_def os_socket_def next_answer_def
      logged_def split: prod.splits)

lemma do_connect_trace: "\<exists>rest. trace (snd (do_connect v h w)) = trace w @ rest"
  by (cases v; cases "res0 h")
    (simp_all add: do_connect_def client_do_connect_def server_do_connect_def os_status_def
      logged_def next_answer_def)

lemma do_connect_not_rejected:
  "fst (do_connect v h w) \<noteq> Inl (socket_error ''Socket already exists.'')"
  by (cases v; cases "res0 h")
    (simp_all add: do_connect_def client_do_connect_def server_do_connect_def os_status_def
      logged_def next_answer_def)

lemma connect_not_rejected:
  assumes "\<not> 0 < fd h"
  shows "fst (socket_impl_connect v traits h name port w)
           \<noteq> Inl (socket_error ''Socket already exists.'')"
proof (cases "err (script w (length (trace w))) \<noteq> 0 \<or> found (script w (length (trace w))) = []")
  case True
  with assms show ?thesis
    by (auto simp: socket_impl_connect_def os_getaddrinfo_def next_answer_def EAI_NONAME_def)
next
  case False
  then obtain c cs where ok: "err (script w (length (trace w))) = 0"
      "found (script w (length (trace w))) = c # cs"
    by (cases "found (script w (length (trace w)))") auto
  show ?thesis
  proof (cases "err (script w (length (trace w) + 1)) = 0")
    case True
    show ?thesis
      unfolding connect_after_socket(1)[OF assms ok True] by (rule do_connect_not_rejected)
  next
    case False
    with assms ok show ?thesis
      by (simp add: socket_impl_connect_def os_getaddrinfo_def os_socket_def next_answer_def
          logged_def)
  qed
qed

lemma connect_calls_resolver:
  assumes "\<not> 0 < fd h"
  shows "\<exists>rest. trace (snd (snd (socket_impl_connect v traits h name port w))) =
           trace w @ Getaddrinfo (c_str name) (decimal port) (hints_of traits) # rest"
proof (cases "err (script w (length (trace w))) \<noteq> 0 \<or> found (script w (length (trace w))) = []")
  case True
  with assms show ?thesis
    by (auto simp: socket_impl_connect_def os_getaddrinfo_def next_answer_def EAI_NONAME_def
        logged_def)
next
  case False
  then obtain c cs where ok: "err (script w (length (trace w))) = 0"
      "found (script w (length (trace w))) = c # cs"
    by (cases "found (script w (length (trace w)))") auto
  show ?thesis
  proof (cases "err (script w (length (trace w) + 1)) = 0")
    case True
    define h2 where "h2 = h\<lparr>res0 := c # cs, fd := int (new_fd (script w (length (trace w) + 1)))\<rparr>"
    define w2 where "w2 = w\<lparr>trace := trace w @ [Getaddrinfo (c_str name) (decimal port) (hints_of traits),
                   Socket (ai_family c) (ai_socktype c) (ai_protocol c)]\<rparr>"
    have "snd (snd (socket_impl_connect v traits h name port w)) = snd (do_connect v h2 w2)"
      using assms ok True
      by (simp add: socket_impl_connect_def os_getaddrinfo_def os_socket_def next_answer_def
          logged_def h2_def w2_def split: prod.splits)
    moreover obtain rest where "trace (snd (do_connect v h2 w2)) = trace w2 @ rest"
      using do_connect_trace by blast
    ultimately show ?thesis
      by (simp add: w2_def)
  next
    case False
    with assms ok show ?thesis
      by (simp add: socket_impl_connect_def os_getaddrinfo_def os_socket_def next_answer_def
          logged_def)
  qed
qed

text \<open>
  C10. \<^verbatim>\<open>connect\<close> is not atomic on error. On a handle without a descriptor greater than 0:
  when resolution and creation succeed, the new descriptor is greater than 0 and the
  finishing step raises, \<^verbatim>\<open>connect\<close> raises and the handle keeps the new descriptor, so
  that every later \<^verbatim>\<open>connect\<close> on it raises "Socket already exists."; when resolution
  fails on a handle with descriptor 0, the descriptor stays 0 and a later \<^verbatim>\<open>connect\<close> is
  not rejected but calls the resolver again; when creation fails, the handle holds the
  return value -1, and a later \<^verbatim>\<open>write\<close> does not raise "Not connected" but calls \<^verbatim>\<open>send\<close>
  on -1.
\<close>

theorem connect_is_not_atomic:
  fixes h :: socket_impl and w :: world and v :: variant and traits :: socket_traits
    and name :: string and port :: nat
  defines "a0 \<equiv> script w (length (trace w))"
    and "a1 \<equiv> script w (length (trace w) + 1)"
    and "h' \<equiv> fst (snd (socket_impl_connect v traits h name port w))"
  assumes "\<not> 0 < fd h"
  shows
   "(err a0 = 0 \<and> found a0 = c # cs \<and> err a1 = 0 \<and> 0 < new_fd a1 \<and>
     (\<exists>e. fst (do_connect v (h\<lparr>res0 := c # cs, fd := int (new_fd a1)\<rparr>)
                (w\<lparr>trace := trace w @ [Getaddrinfo (c_str name) (decimal port) (hints_of traits),
                       Socket (ai_family c) (ai_socktype c) (ai_protocol c)]\<rparr>)) = Inl e) \<longrightarrow>
       (\<exists>e. fst (socket_impl_connect v traits h name port w) = Inl e) \<and>
       fd h' = int (new_fd a1) \<and>
       (\<forall>v2 t2 n2 p2 w2.
          fst (socket_impl_connect v2 t2 h' n2 p2 w2) = Inl (socket_error ''Socket already exists.''))) \<and>
    (fd h = 0 \<and> (err a0 \<noteq> 0 \<or> found a0 = []) \<longrightarrow>
       (\<exists>e. fst (socket_impl_connect v traits h name port w) = Inl e) \<and>
       fd h' = 0 \<and>
       (\<forall>v2 t2 n2 p2 w2.
          fst (socket_impl_connect v2 t2 h' n2 p2 w2) \<noteq> Inl (socket_error ''Socket already exists.'') \<and>
          (\<exists>rest. trace (snd (snd (socket_impl_connect v2 t2 h' n2 p2 w2))) =
                    trace w2 @ Getaddrinfo (c_str n2) (decimal p2) (hints_of t2) # rest))) \<and>
    (err a0 = 0 \<and> found a0 = c # cs \<and> err a1 \<noteq> 0 \<longrightarrow>
       (\<exists>e. fst (socket_impl_connect v traits h name port w) = Inl e) \<and>
       fd h' = - 1 \<and>
       (\<forall>bytes w2.
          fst (socket_write h' bytes w2) \<noteq> Inl (socket_error ''Not connected'') \<and>
          trace (snd (socket_write h' bytes w2)) = trace w2 @ [Send (- 1) bytes]))"
proof (intro conjI impI)
  assume a: "err a0 = 0 \<and> found a0 = c # cs \<and> err a1 = 0 \<and> 0 < new_fd a1 \<and>
     (\<exists>e. fst (do_connect v (h\<lparr>res0 := c # cs, fd := int (new_fd a1)\<rparr>)
                (w\<lparr>trace := trace w @ [Getaddrinfo (c_str name) (decimal port) (hints_of traits),
                       Socket (ai_family c) (ai_socktype c) (ai_protocol c)]\<rparr>)) = Inl e)"
  then have ok: "err (script w (length (trace w))) = 0"
      "found (script w (length (trace w))) = c # cs" "err (script w (length (trace w) + 1)) = 0"
    by (simp_all add: a0_def a1_def)
  show "\<exists>e. fst (socket_impl_connect v traits h name port w) = Inl e"
    unfolding connect_after_socket(1)[OF assms(4) ok] using a by (simp add: a1_def)
  have hd: "h' = h\<lparr>res0 := c # cs, fd := int (new_fd a1)\<rparr>"
    unfolding h'_def a1_def by (rule connect_after_socket(2)[OF assms(4) ok])
  then show "fd h' = int (new_fd a1)"
    by simp
  with a show "\<forall>v2 t2 n2 p2 w2.
      fst (socket_impl_connect v2 t2 h' n2 p2 w2) = Inl (socket_error ''Socket already exists.'')"
    by (simp add: socket_impl_connect_def)
next
  assume b: "fd h = 0 \<and> (err a0 \<noteq> 0 \<or> found a0 = [])"
  then have f: "err (script w (length (trace w))) \<noteq> 0 \<or> found (script w (length (trace w))) = []"
    by (simp add: a0_def)
  show "\<exists>e. fst (socket_impl_connect v traits h name port w) = Inl e"
    by (rule connect_after_resolver_fails(1)[OF assms(4) f])
  have "h' = h"
    unfolding h'_def by (rule connect_after_resolver_fails(2)[OF assms(4) f])
  with b show z: "fd h' = 0"
    by simp
  then have "\<not> 0 < fd h'"
    by simp
  then show "\<forall>v2 t2 n2 p2 w2.
      fst (socket_impl_connect v2 t2 h' n2 p2 w2) \<noteq> Inl (socket_error ''Socket already exists.'') \<and>
      (\<exists>rest. trace (snd (snd (socket_impl_connect v2 t2 h' n2 p2 w2))) =
                trace w2 @ Getaddrinfo (c_str n2) (decimal p2) (hints_of t2) # rest)"
    using connect_not_rejected connect_calls_resolver by blast
next
  assume c: "err a0 = 0 \<and> found a0 = c # cs \<and> err a1 \<noteq> 0"
  then have ok: "err (script w (length (trace w))) = 0"
      "found (script w (length (trace w))) = c # cs" "err (script w (length (trace w) + 1)) \<noteq> 0"
    by (simp_all add: a0_def a1_def)
  show "\<exists>e. fst (socket_impl_connect v traits h name port w) = Inl e"
    by (rule connect_after_socket_fails(1)[OF assms(4) ok])
  have "h' = h\<lparr>res0 := c # cs, fd := - 1\<rparr>"
    unfolding h'_def by (rule connect_after_socket_fails(2)[OF assms(4) ok])
  then show m: "fd h' = - 1"
    by simp
  then show "\<forall>bytes w2.
      fst (socket_write h' bytes w2) \<noteq> Inl (socket_error ''Not connected'') \<and>
      trace (snd (socket_write h' bytes w2)) = trace w2 @ [Send (- 1) bytes]"
    by (simp add: socket_write_def os_send_def logged_def split: option.splits)
qed

theorem connect_is_not_atomic_witness:
  "\<not> 0 < fd socket_impl_ctor \<and>
   fst (socket_impl_connect Client tcp_traits socket_impl_ctor ''localhost'' 1234
          (scripted [willing, willing, failing 111]))
     = Inl (socket_error ''Connection failed: 111'') \<and>
   fd (fst (snd (socket_impl_connect Client tcp_traits socket_impl_ctor ''localhost'' 1234
          (scripted [willing, willing, failing 111])))) = 3 \<and>
   fst (socket_impl_connect Client tcp_traits
          (fst (snd (socket_impl_connect Client tcp_traits socket_impl_ctor ''localhost'' 1234
             (scripted [willing, willing, failing 111]))))
          ''localhost'' 1234 (scripted []))
     = Inl (socket_error ''Socket already exists.'') \<and>
   fst (socket_impl_connect Server tcp_traits socket_impl_ctor ''localhost'' 1234
          (scripted [willing, willing, willing, failing 98]))
     = Inl (socket_error ''Could not bind to socket: 98'') \<and>
   fst (socket_impl_connect Server tcp_traits
          (fst (snd (socket_impl_connect Server tcp_traits socket_impl_ctor ''localhost'' 1234
             (scripted [willing, willing, willing, failing 98]))))
          ''localhost'' 1234 (scripted []))
     = Inl (socket_error ''Socket already exists.'') \<and>
   fd (fst (snd (socket_impl_connect Client tcp_traits socket_impl_ctor ''nowhere'' 80
          (scripted [failing (- 2)])))) = 0 \<and>
   fst (socket_impl_connect Client tcp_traits
          (fst (snd (socket_impl_connect Client tcp_traits socket_impl_ctor ''nowhere'' 80
             (scripted [failing (- 2)]))))
          ''localhost'' 1234 (scripted []))
     = Inr () \<and>
   fd (fst (snd (socket_impl_connect Client tcp_traits socket_impl_ctor ''localhost'' 1234
          (scripted [willing, failing 24])))) = - 1 \<and>
   fst (socket_write
          (fst (snd (socket_impl_connect Client tcp_traits socket_impl_ctor ''localhost'' 1234
             (scripted [willing, failing 24]))))
          ''x'' (scripted [failing 9]))
     = Inl (socket_error ''Error writing to connected host: 9'')"
  using connect_is_not_atomic [where h = socket_impl_ctor
      and w = "scripted [willing, willing, failing 111]" and v = Client
      and name = "''localhost''" and port = 1234 and traits = tcp_traits
      and c = loopback and cs = "[]"]
    connect_is_not_atomic [where h = socket_impl_ctor
      and w = "scripted [willing, willing, willing, failing 98]" and v = Server
      and name = "''localhost''" and port = 1234 and traits = tcp_traits
      and c = loopback and cs = "[]"]
    connect_is_not_atomic [where h = socket_impl_ctor
      and w = "scripted [failing (- 2)]" and v = Client
      and name = "''nowhere''" and port = 80 and traits = tcp_traits
      and c = loopback and cs = "[]"]
    connect_is_not_atomic [where h = socket_impl_ctor
      and w = "scripted [willing, failing 24]" and v = Client
      and name = "''localhost''" and port = 1234 and traits = tcp_traits
      and c = loopback and cs = "[]"]
  by (simp add: eval_defs socket_impl_connect_def os_getaddrinfo_def os_socket_def
      do_connect_def client_do_connect_def server_do_connect_def os_status_def next_answer_def
      logged_def hints_of_def socket_write_def os_send_def)

section \<open>Properties of the handles' lifetime\<close>

lemma step_handles: "fst (snd (step x live w)) = handles_after x live"
  by (cases x) (simp_all add: take_Suc_conv_app_nth)

lemma owned_append: "owned (xs @ ys) = owned xs @ owned ys"
  by (simp add: owned_def)

lemma exclusive_step:
  assumes "exclusive live" and "\<not> shares x live"
  shows "exclusive (handles_after x live)"
proof (cases x)
  case Construct
  with assms show ?thesis
    by (simp add: exclusive_def owned_def socket_ctor_def)
next
  case (Wrap d)
  with assms show ?thesis
    by (auto simp: exclusive_def owned_def socket_ctor_fd_def)
next
  case (Copy i)
  with assms show ?thesis
    by (auto simp: exclusive_def owned_def socket_ctor_copy_def)
next
  case (Destroy i)
  have "live = take i live @ drop i live"
    by simp
  then have "owned live = owned (take i live) @ owned (drop i live)"
    by (metis owned_append)
  moreover have "\<exists>ys. owned (drop i live) = ys @ owned (drop (Suc i) live)"
  proof (cases "i < length live")
    case True
    then have "drop i live = live ! i # drop (Suc i) live"
      by (simp add: Cons_nth_drop_Suc)
    then have "owned (drop i live) = owned [live ! i] @ owned (drop (Suc i) live)"
      by (metis append_Cons append_Nil owned_append)
    then show ?thesis by blast
  next
    case False
    then show ?thesis by simp
  qed
  ultimately obtain ys where
    "owned live = owned (take i live) @ ys @ owned (drop (Suc i) live)"
    by auto
  with assms(1) have "distinct (owned (take i live) @ owned (drop (Suc i) live))"
    by (auto simp: exclusive_def)
  with Destroy show ?thesis
    by (simp add: exclusive_def owned_append)
qed

lemma exclusive_run:
  "exclusive live \<Longrightarrow> sharing_free ops live \<Longrightarrow> exclusive (fst (snd (run ops live w)))"
proof (induction ops arbitrary: live w)
  case Nil
  then show ?case by simp
next
  case (Cons x xs)
  have ex: "exclusive (handles_after x live)"
    using Cons.prems by (simp add: exclusive_step)
  obtain r live' w' where st: "step x live w = (r, live', w')"
    by (cases "step x live w") auto
  then have l: "live' = handles_after x live"
    using step_handles[of x live w] by simp
  show ?case
  proof (cases r)
    case (Inl e)
    with st ex l show ?thesis by simp
  next
    case (Inr u)
    with st l Cons.IH[OF ex, of w'] Cons.prems show ?thesis by simp
  qed
qed

lemma dtor_trace:
  "trace (snd (socket_dtor s w)) = trace w @ (if 0 < fd s then [Close (fd s)] else [])"
  by (simp add: socket_dtor_def os_status_def logged_def)

text \<open>
  C9, as the code has it. The destructor calls \<^verbatim>\<open>close\<close> only when the stored descriptor
  is greater than 0, and then once. The copy constructor gives the copy the descriptor of
  the original. No valid descriptor is held by two live handles at the same time after a
  sequence of constructions, copies and destructions that starts from handles holding
  distinct descriptors and neither wraps a descriptor that a live handle holds nor copies a
  handle that holds a valid descriptor.
\<close>

theorem handles_share_only_through_copies:
  "trace (snd (socket_dtor s w)) = trace w @ (if 0 < fd s then [Close (fd s)] else []) \<and>
   fd (socket_ctor_copy s) = fd s \<and>
   (exclusive live \<and> sharing_free ops live \<longrightarrow> exclusive (fst (snd (run ops live w))))"
  using dtor_trace[of s w] exclusive_run[of live ops w]
  by (simp add: socket_ctor_copy_def)

theorem handles_share_only_through_copies_witness:
  "trace (snd (socket_dtor (socket_ctor_fd 5) (scripted []))) = [Close 5] \<and>
   trace (snd (socket_dtor socket_ctor (scripted []))) = [] \<and>
   fd (socket_ctor_copy (socket_ctor_fd 5)) = 5 \<and>
   exclusive [] \<and>
   sharing_free [Construct, Wrap 5, Copy 0, Wrap 6, Destroy 1, Wrap 5] [] \<and>
   exclusive (fst (snd (run [Construct, Wrap 5, Copy 0, Wrap 6, Destroy 1, Wrap 5] []
                          (scripted []))))"
  using handles_share_only_through_copies
      [of "socket_ctor_fd 5" "scripted []" "[]"
          "[Construct, Wrap 5, Copy 0, Wrap 6, Destroy 1, Wrap 5]"]
    handles_share_only_through_copies [of socket_ctor "scripted []" "[]" "[]"]
  by (simp add: exclusive_def owned_def socket_ctor_def socket_ctor_fd_def socket_ctor_copy_def
      scripted_def)

text \<open>
  C9 as stated fails with a copy: after \<^verbatim>\<open>socket a(5); socket b(a);\<close> two live handles hold
  descriptor 5, as they do after \<^verbatim>\<open>socket a(5); socket b(5);\<close>. Destroying both calls \<^verbatim>\<open>close(5)\<close> twice; the second call fails here with
  \<^verbatim>\<open>EBADF\<close> (9), and the destructor throws.
\<close>

theorem copied_handle_shares_descriptor:
  "map fd (fst (snd (run [Wrap 5, Copy 0] [] (scripted [])))) = [5, 5] \<and>
   \<not> exclusive (fst (snd (run [Wrap 5, Copy 0] [] (scripted [])))) \<and>
   \<not> exclusive (fst (snd (run [Wrap 5, Wrap 5] [] (scripted [])))) \<and>
   trace (snd (snd (run [Wrap 5, Copy 0, Destroy 0, Destroy 0] []
                      (scripted [willing, failing 9]))))
     = [Close 5, Close 5] \<and>
   fst (run [Wrap 5, Copy 0, Destroy 0, Destroy 0] [] (scripted [willing, failing 9]))
     = Inl (socket_error ''Error closing socket: 9'')"
  by (simp add: exclusive_def owned_def socket_ctor_fd_def socket_ctor_copy_def socket_dtor_def
      os_status_def next_answer_def logged_def scripted_def willing_def failing_def
      show_int_def decimal.simps digit_def)

end
